theory Spec2Isabelle
  imports
    Complex_Main
    "HOL-Library.Char_ord"
    "HOL-Library.List_Lexorder"
    "HOL-Library.Product_Lexorder"
begin

section \<open>Python values shared by all modules\<close>

text \<open>
  Exceptions of the Python code are values. Every \<^verbatim>\<open>raise\<close> of the repository and every
  exception a library call can throw into it is one of these constructors; a function that can
  raise returns \<open>py_error + 'a\<close> with \<open>Inl\<close> for the exception.
\<close>

datatype py_error =
    AttributeError
  | ValueError
  | ZeroDivisionError
  | OverflowError
  | ConnectionError
  | ResponseError
  | StoreFailure string

text \<open>
  A response built by \<^verbatim>\<open>create_response\<close> / \<^verbatim>\<open>create_error_response\<close> of
  \<^verbatim>\<open>utils.py\<close>: the status code and either the body or the error message.
\<close>

datatype 'b response = Response nat 'b | ErrorResponse nat string

text \<open>
  Python's slice \<^verbatim>\<open>xs[:n]\<close> for an arbitrary integer \<open>n\<close>: a negative \<open>n\<close> counts from
  the end of the list.
\<close>

definition py_slice_to :: "int \<Rightarrow> 'a list \<Rightarrow> 'a list" where
  "py_slice_to n xs =
     (if 0 \<le> n then take (nat n) xs else take (length xs - nat (- n)) xs)"

section \<open>\<^verbatim>\<open>utils.py\<close>: cosine similarity\<close>

text \<open>
  \<^verbatim>\<open>calculate_relevance_score\<close> on vectors of Python ints, which the annotation
  \<^verbatim>\<open>List[float]\<close> admits and a JSON embedding such as \<^verbatim>\<open>[1, 0]\<close> holds. On ints the dot
  product and the two sums of squares are exact. \<^verbatim>\<open>** 0.5\<close> first converts the sum to a
  float, and the conversion raises \<^verbatim>\<open>OverflowError\<close> (int too large to convert to float)
  for an int that rounds beyond the largest double, that is from \<open>2 ^ 1024 - 2 ^ 970\<close> on.
  Both magnitudes are computed before the test for zero. The square root of a converted sum
  is 0 exactly when the sum is 0, so the test is one on the sums. The last line divides in
  float arithmetic, whose rounded result is a parameter (\<open>float_quotient\<close> of the dot product and
  the two sums), as is the float \<^verbatim>\<open>0.0\<close>; its divisor is a product of two floats that are
  at least 1, so it does not raise. \<^verbatim>\<open>zip\<close> truncates to the shorter list.
\<close>

definition int_too_large_for_float :: "int \<Rightarrow> bool" where
  "int_too_large_for_float n = (2 ^ 1024 - 2 ^ 970 \<le> \<bar>n\<bar>)"

definition calculate_relevance_score ::
  "'f \<Rightarrow> (int \<Rightarrow> int \<Rightarrow> int \<Rightarrow> 'f) \<Rightarrow> int list \<Rightarrow> int list \<Rightarrow> py_error + 'f" where
  "calculate_relevance_score float_zero float_quotient query_embedding doc_embedding =
     (if query_embedding = [] \<or> doc_embedding = [] then Inr float_zero
      else
        let dot_product = sum_list (map (\<lambda>(a, b). a * b) (zip query_embedding doc_embedding));
            squares_a = sum_list (map (\<lambda>a. a * a) query_embedding);
            squares_b = sum_list (map (\<lambda>b. b * b) doc_embedding)
        in if int_too_large_for_float squares_a then Inl OverflowError
           else if int_too_large_for_float squares_b then Inl OverflowError
           else if squares_a = 0 \<or> squares_b = 0 then Inr float_zero
           else Inr (float_quotient dot_product squares_a squares_b))"

section \<open>\<^verbatim>\<open>utils.py\<close>: merging and ranking\<close>

text \<open>
  A search result is a dictionary read with \<^verbatim>\<open>.get\<close> and a default, so each of the keys
  the ranking reads may be absent. Scores are reals (a NaN score never passes the threshold
  filter of the source, so it never reaches the sort); timestamps are ISO strings, compared
  as Python compares strings (lexicographically by code point).
\<close>

record search_result =
  res_id :: string
  res_relevance_score :: "real option"
  res_timestamp :: "string option"
  res_content :: "string option"

definition get_relevance_score :: "search_result \<Rightarrow> real" where
  "get_relevance_score x = (case res_relevance_score x of None \<Rightarrow> 0 | Some s \<Rightarrow> s)"

definition get_timestamp :: "search_result \<Rightarrow> string" where
  "get_timestamp x = (case res_timestamp x of None \<Rightarrow> [] | Some t \<Rightarrow> t)"

definition get_content :: "search_result \<Rightarrow> string" where
  "get_content x = (case res_content x of None \<Rightarrow> [] | Some c \<Rightarrow> c)"

text \<open>
  \<^verbatim>\<open>hash_content\<close>: the first 16 characters of the SHA-256 hex digest. The digest is
  \<^verbatim>\<open>hashlib\<close>'s, a library function outside the repository, so it is a parameter.
\<close>

definition hash_content :: "(string \<Rightarrow> string) \<Rightarrow> string \<Rightarrow> string" where
  "hash_content sha256_hexdigest content = take 16 (sha256_hexdigest content)"

text \<open>
  The sort key of the source, \<^verbatim>\<open>(relevance_score, timestamp)\<close>; tuples compare
  lexicographically.
\<close>

definition rank_key :: "search_result \<Rightarrow> real \<times> string" where
  "rank_key x = (get_relevance_score x, get_timestamp x)"

text \<open>
  \<^verbatim>\<open>sorted(xs, key=k, reverse=True)\<close>: descending and stable, that is, elements with equal
  keys keep their order in \<open>xs\<close>. The library's \<open>sort_key\<close> is a stable ascending sort, so
  the list is reversed before and after it.
\<close>

definition sorted_reverse :: "('a \<Rightarrow> 'k::linorder) \<Rightarrow> 'a list \<Rightarrow> 'a list" where
  "sorted_reverse k xs = rev (sort_key k (rev xs))"

text \<open>The deduplication loop, with the set \<^verbatim>\<open>seen_hashes\<close> as an accumulator.\<close>

fun unique_loop ::
  "(string \<Rightarrow> string) \<Rightarrow> search_result list \<Rightarrow> string set \<Rightarrow> search_result list" where
  "unique_loop sha [] seen_hashes = []"
| "unique_loop sha (result # rest) seen_hashes =
     (let content_hash = hash_content sha (get_content result)
      in if content_hash \<notin> seen_hashes
         then result # unique_loop sha rest (insert content_hash seen_hashes)
         else unique_loop sha rest seen_hashes)"

definition merge_and_rank_results ::
  "(string \<Rightarrow> string) \<Rightarrow> search_result list \<Rightarrow> int \<Rightarrow> real \<Rightarrow> search_result list" where
  "merge_and_rank_results sha results max_results relevance_threshold =
     (let filtered_results =
            filter (\<lambda>result. get_relevance_score result \<ge> relevance_threshold) results;
          sorted_results = sorted_reverse rank_key filtered_results;
          unique_results = unique_loop sha sorted_results {}
      in py_slice_to max_results unique_results)"

text \<open>
  SHA-256 digests of the contents used in the concrete examples below (the values
  \<^verbatim>\<open>hashlib.sha256(s.encode()).hexdigest()\<close> returns for these strings); any other string is
  mapped to the empty digest and is not used.
\<close>

definition sha256_examples :: "string \<Rightarrow> string" where
  "sha256_examples s =
     (if s = ''a'' then ''ca978112ca1bbdcafac231b39a23dc4da786eff8147c4e72b9807785afee48bb''
      else if s = ''b'' then ''3e23e8160039594a33894f6564e1b1348bbd7a0088d42c4acb73eeaed59c009d''
      else if s = ''x'' then ''2d711642b726b04401627ca9fbac32f5c8530fb1903cc4db02258717921a4881''
      else [])"

text \<open>The content fingerprint of a result, as the deduplication loop computes it.\<close>

abbreviation fingerprint :: "(string \<Rightarrow> string) \<Rightarrow> search_result \<Rightarrow> string" where
  "fingerprint sha x \<equiv> hash_content sha (get_content x)"

text \<open>A list in descending order of a key: what the sort of the source produces.\<close>

definition descending :: "('a \<Rightarrow> 'k::linorder) \<Rightarrow> 'a list \<Rightarrow> bool" where
  "descending k ys = sorted_wrt (\<lambda>x y. k y \<le> k x) ys"

text \<open>Results used in the concrete examples.\<close>

definition ex_a :: search_result where
  "ex_a = \<lparr>res_id = ''sem_1'', res_relevance_score = Some 0.9,
            res_timestamp = Some ''2024-01-01T00:00:00'', res_content = Some ''a''\<rparr>"

definition ex_b :: search_result where
  "ex_b = \<lparr>res_id = ''sem_2'', res_relevance_score = Some 0.8,
            res_timestamp = Some ''2024-01-02T00:00:00'', res_content = Some ''b''\<rparr>"

definition ex_x1 :: search_result where
  "ex_x1 = \<lparr>res_id = ''sem_3'', res_relevance_score = Some 0.95,
             res_timestamp = Some ''2024-01-03T00:00:00'', res_content = Some ''x''\<rparr>"

definition ex_x2 :: search_result where
  "ex_x2 = \<lparr>res_id = ''sem_4'', res_relevance_score = Some 0.9,
             res_timestamp = Some ''2024-01-04T00:00:00'', res_content = Some ''x''\<rparr>"

definition ex_top :: search_result where
  "ex_top = \<lparr>res_id = ''sem_6'', res_relevance_score = Some 0.99,
              res_timestamp = Some ''2024-01-06T00:00:00'', res_content = Some ''b''\<rparr>"

definition ex_x3 :: search_result where
  "ex_x3 = \<lparr>res_id = ''sem_5'', res_relevance_score = Some 0.8,
             res_timestamp = Some ''2024-01-05T00:00:00'', res_content = Some ''x''\<rparr>"

section \<open>\<^verbatim>\<open>utils.py\<close>: identifiers and time\<close>

text \<open>
  What the system supplies during one call: the string \<^verbatim>\<open>str(uuid.uuid4())\<close> returns and the
  ISO form of \<^verbatim>\<open>datetime.utcnow()\<close>.
\<close>

record sys =
  uuid4 :: string
  utcnow :: string

definition generate_id :: "string \<Rightarrow> sys \<Rightarrow> string" where
  "generate_id prefix sy = (if prefix \<noteq> [] then prefix @ ''_'' @ uuid4 sy else uuid4 sy)"

type_synonym json_dict = "(string \<times> string) list"

section \<open>\<^verbatim>\<open>services/redis.py\<close>: the key-value store\<close>

text \<open>
  The Redis server behind the client: whether it can be reached, the largest expiry in
  seconds it accepts, and its entries in scan order, each a key with the stored value and its
  expiry in seconds (\<open>None\<close>: no expiry). The largest expiry depends on the server's version
  and clock (it keeps expiry times in signed 64-bit milliseconds), so it is a field of the
  model; no server's is below \<open>10 ^ 15\<close> seconds, and the model takes it to be at least a week.
  A value is the JSON text \<^verbatim>\<open>json.dumps\<close> wrote; the model keeps the dictionary that the text
  encodes. The passing of time is not modelled: no entry expires during a call.
\<close>

record 'v redis =
  reachable :: bool
  max_expire :: int
  entries :: "(string \<times> ('v \<times> int option)) list"

definition expire_limit :: "'v redis \<Rightarrow> int" where
  "expire_limit r = max 604800 (max_expire r)"

definition put_entry ::
  "string \<Rightarrow> 'v \<Rightarrow> int option \<Rightarrow> (string \<times> ('v \<times> int option)) list
     \<Rightarrow> (string \<times> ('v \<times> int option)) list" where
  "put_entry key v expiry es = (key, (v, expiry)) # filter (\<lambda>e. fst e \<noteq> key) es"

text \<open>
  The commands of the client (\<^verbatim>\<open>redis.Redis\<close>, created with \<^verbatim>\<open>decode_responses=True\<close>, so
  keys and values come back as \<^verbatim>\<open>str\<close>). Every command raises when the server cannot be
  reached; \<^verbatim>\<open>SETEX\<close> refuses an expiry that is not positive or lies beyond the largest one
  the server accepts. A command returns its result or the exception, and the store after it.
\<close>

definition client_set ::
  "'v redis \<Rightarrow> string \<Rightarrow> 'v \<Rightarrow> (py_error + bool) \<times> 'v redis" where
  "client_set r key v =
     (if \<not> reachable r then (Inl ConnectionError, r)
      else (Inr True, r\<lparr>entries := put_entry key v None (entries r)\<rparr>))"

definition client_setex ::
  "'v redis \<Rightarrow> string \<Rightarrow> int \<Rightarrow> 'v \<Rightarrow> (py_error + bool) \<times> 'v redis" where
  "client_setex r key ttl v =
     (if \<not> reachable r then (Inl ConnectionError, r)
      else if ttl \<le> 0 \<or> expire_limit r < ttl then (Inl ResponseError, r)
      else (Inr True, r\<lparr>entries := put_entry key v (Some ttl) (entries r)\<rparr>))"

definition client_get :: "'v redis \<Rightarrow> string \<Rightarrow> py_error + 'v option" where
  "client_get r key =
     (if \<not> reachable r then Inl ConnectionError
      else Inr (map_option fst (map_of (entries r) key)))"

text \<open>Glob patterns of \<^verbatim>\<open>KEYS\<close> and \<^verbatim>\<open>SCAN\<close>: \<^verbatim>\<open>*\<close> and \<^verbatim>\<open>?\<close>; any other character is literal.\<close>

fun glob_match :: "string \<Rightarrow> string \<Rightarrow> bool" where
  "glob_match [] s = (s = [])"
| "glob_match (p # ps) [] = (p = CHR ''*'' \<and> glob_match ps [])"
| "glob_match (p # ps) (c # cs) =
     (if p = CHR ''*'' then glob_match ps (c # cs) \<or> glob_match (p # ps) cs
      else (p = CHR ''?'' \<or> p = c) \<and> glob_match ps cs)"

definition client_keys :: "'v redis \<Rightarrow> string \<Rightarrow> py_error + string list" where
  "client_keys r pattern =
     (if \<not> reachable r then Inl ConnectionError
      else Inr (filter (glob_match pattern) (map fst (entries r))))"

definition client_mget :: "'v redis \<Rightarrow> string list \<Rightarrow> py_error + 'v option list" where
  "client_mget r keys =
     (if \<not> reachable r then Inl ConnectionError
      else Inr (map (\<lambda>k. map_option fst (map_of (entries r) k)) keys))"

text \<open>
  \<^verbatim>\<open>RedisAdapter.set\<close>: \<^verbatim>\<open>SETEX\<close> when \<^verbatim>\<open>ttl_seconds\<close> is truthy (neither \<^verbatim>\<open>None\<close> nor 0),
  a plain \<^verbatim>\<open>SET\<close> otherwise; an exception is logged and raised again.
\<close>

definition redis_set ::
  "'v redis \<Rightarrow> string \<Rightarrow> 'v \<Rightarrow> int option \<Rightarrow> (py_error + bool) \<times> 'v redis" where
  "redis_set r key v ttl_seconds =
     (case ttl_seconds of
        None \<Rightarrow> client_set r key v
      | Some ttl \<Rightarrow> if ttl \<noteq> 0 then client_setex r key ttl v else client_set r key v)"

text \<open>\<^verbatim>\<open>RedisAdapter.get\<close>: the decoded value, or \<^verbatim>\<open>None\<close> for a missing key or an exception.\<close>

definition redis_get :: "'v redis \<Rightarrow> string \<Rightarrow> 'v option" where
  "redis_get r key = (case client_get r key of Inl e \<Rightarrow> None | Inr v \<Rightarrow> v)"

text \<open>\<^verbatim>\<open>RedisAdapter.scan_keys\<close>: the matching keys, or the empty list on an exception.\<close>

definition redis_scan_keys :: "'v redis \<Rightarrow> string \<Rightarrow> string list" where
  "redis_scan_keys r pattern = (case client_keys r pattern of Inl e \<Rightarrow> [] | Inr ks \<Rightarrow> ks)"

text \<open>
  \<^verbatim>\<open>deserialize_memory\<close> calls \<^verbatim>\<open>obj.items()\<close>. \<^verbatim>\<open>RedisAdapter.get_multiple\<close> hands it the
  \<^verbatim>\<open>str\<close> values \<^verbatim>\<open>MGET\<close> returned, and a \<^verbatim>\<open>str\<close> has no \<^verbatim>\<open>items\<close>: the call raises
  \<^verbatim>\<open>AttributeError\<close>, which \<^verbatim>\<open>get_multiple\<close> catches, returning one \<^verbatim>\<open>None\<close> per key.
\<close>

definition deserialize_memory_str :: "'v \<Rightarrow> py_error + 'v" where
  "deserialize_memory_str v = Inl AttributeError"

fun deserialize_all :: "'v option list \<Rightarrow> py_error + 'v option list" where
  "deserialize_all [] = Inr []"
| "deserialize_all (None # vs) = map_sum id (\<lambda>ds. None # ds) (deserialize_all vs)"
| "deserialize_all (Some v # vs) =
     (case deserialize_memory_str v of
        Inl e \<Rightarrow> Inl e
      | Inr d \<Rightarrow> map_sum id (\<lambda>ds. Some d # ds) (deserialize_all vs))"

definition redis_get_multiple :: "'v redis \<Rightarrow> string list \<Rightarrow> 'v option list" where
  "redis_get_multiple r keys =
     (case client_mget r keys of
        Inl e \<Rightarrow> replicate (length keys) None
      | Inr values \<Rightarrow>
          (case deserialize_all values of
             Inl e \<Rightarrow> replicate (length keys) None
           | Inr ds \<Rightarrow> ds))"

text \<open>
  \<^verbatim>\<open>RedisAdapter.keys\<close> calls \<^verbatim>\<open>key.decode('utf-8')\<close> on every key the client returned. The
  client decodes responses itself, so each key is a \<^verbatim>\<open>str\<close>, which has no \<^verbatim>\<open>decode\<close>: the
  call raises \<^verbatim>\<open>AttributeError\<close>, which \<^verbatim>\<open>keys\<close> catches, printing it and returning \<^verbatim>\<open>[]\<close>.
\<close>

definition str_decode :: "string \<Rightarrow> py_error + string" where
  "str_decode key = Inl AttributeError"

fun decode_all :: "string list \<Rightarrow> py_error + string list" where
  "decode_all [] = Inr []"
| "decode_all (key # ks) =
     (case str_decode key of
        Inl e \<Rightarrow> Inl e
      | Inr d \<Rightarrow> map_sum id (\<lambda>ds. d # ds) (decode_all ks))"

definition redis_keys :: "'v redis \<Rightarrow> string \<Rightarrow> string list" where
  "redis_keys r pattern =
     (case client_keys r pattern of
        Inl e \<Rightarrow> []
      | Inr ks \<Rightarrow> (case decode_all ks of Inl e \<Rightarrow> [] | Inr ds \<Rightarrow> ds))"

section \<open>\<^verbatim>\<open>handlers/shortterm_handler.py\<close>\<close>

text \<open>
  The request body of a short-term write, a dictionary: a field is \<open>None\<close> when its key is
  absent. The handler reads \<^verbatim>\<open>content\<close>, \<^verbatim>\<open>metadata\<close>, \<^verbatim>\<open>ttl_seconds\<close> and
  \<^verbatim>\<open>session_id\<close>; a \<^verbatim>\<open>tenant_id\<close> the caller sends is part of the dictionary and is
  never read.
\<close>

record stm_body =
  body_content :: "string option"
  body_metadata :: "json_dict option"
  body_ttl_seconds :: "int option"
  body_session_id :: "string option"
  body_tenant_id :: "string option"

text \<open>\<^verbatim>\<open>models.ShorttermMemory\<close>: the stored record. It has no tenant field.\<close>

record ShorttermMemory =
  stm_id :: string
  stm_content :: string
  stm_timestamp :: string
  stm_metadata :: json_dict
  stm_ttl_seconds :: int
  stm_session_id :: string

record stm_created =
  created_memory_id :: string
  created_message :: string
  created_ttl_seconds :: int

definition ShorttermMemoryHandler_add_memory ::
  "sys \<Rightarrow> stm_body \<Rightarrow> ShorttermMemory redis
     \<Rightarrow> (py_error + stm_created response) \<times> ShorttermMemory redis" where
  "ShorttermMemoryHandler_add_memory sy body r =
     (case body_content body of
        None \<Rightarrow> (Inr (ErrorResponse 400 ''Missing required fields: content''), r)
      | Some content \<Rightarrow>
          let memory_id = generate_id ''stm'' sy;
              memory = \<lparr>stm_id = memory_id,
                        stm_content = content,
                        stm_timestamp = utcnow sy,
                        stm_metadata = (case body_metadata body of None \<Rightarrow> [] | Some m \<Rightarrow> m),
                        stm_ttl_seconds =
                          (case body_ttl_seconds body of None \<Rightarrow> 604800 | Some t \<Rightarrow> t),
                        stm_session_id =
                          (case body_session_id body of None \<Rightarrow> [] | Some sid \<Rightarrow> sid)\<rparr>
          in case redis_set r memory_id memory (Some (stm_ttl_seconds memory)) of
               (Inl e, r1) \<Rightarrow> (Inl e, r1)
             | (Inr success, r1) \<Rightarrow>
                 if \<not> success then (Inr (ErrorResponse 500 ''Failed to store memory''), r1)
                 else
                   let created = Response 201
                         \<lparr>created_memory_id = memory_id,
                          created_message = ''Short-term memory stored successfully'',
                          created_ttl_seconds = stm_ttl_seconds memory\<rparr>
                   in if stm_session_id memory \<noteq> [] then
                        (case redis_set r1
                                (''session:'' @ stm_session_id memory @ '':'' @ memory_id)
                                memory (Some (stm_ttl_seconds memory)) of
                           (Inl e, r2) \<Rightarrow> (Inl e, r2)
                         | (Inr _, r2) \<Rightarrow> (Inr created, r2))
                      else (Inr created, r1))"

text \<open>
  The query parameters of a short-term read, strings as the gateway delivers them. The handler
  reads \<^verbatim>\<open>memory_id\<close>, \<^verbatim>\<open>session_id\<close> and \<^verbatim>\<open>limit\<close>; a \<^verbatim>\<open>tenant_id\<close> parameter is never
  read. \<^verbatim>\<open>int\<close> is Python's, a parameter: \<open>None\<close> when it raises \<^verbatim>\<open>ValueError\<close>.
\<close>

record stm_params =
  param_memory_id :: "string option"
  param_session_id :: "string option"
  param_limit :: "string option"
  param_tenant_id :: "string option"

record stm_query =
  query_memory_id :: "string option"
  query_session_id :: "string option"
  query_limit :: int

record stm_found =
  found_memories :: "ShorttermMemory list"
  found_count :: nat
  found_query :: stm_query

definition truthy_str :: "string option \<Rightarrow> bool" where
  "truthy_str v = (case v of None \<Rightarrow> False | Some s \<Rightarrow> s \<noteq> [])"

definition ShorttermMemoryHandler_get_memory ::
  "(string \<Rightarrow> int option) \<Rightarrow> stm_params \<Rightarrow> ShorttermMemory redis
     \<Rightarrow> py_error + stm_found response" where
  "ShorttermMemoryHandler_get_memory py_int params r =
     (let memory_id = param_memory_id params;
          session_id = param_session_id params
      in case (case param_limit params of None \<Rightarrow> Some 10 | Some l \<Rightarrow> py_int l) of
           None \<Rightarrow> Inl ValueError
         | Some limit \<Rightarrow>
             if \<not> truthy_str memory_id \<and> \<not> truthy_str session_id
             then Inr (ErrorResponse 400 ''Either memory_id or session_id is required'')
             else
               let results =
                     (if truthy_str memory_id then
                        (case redis_get r (the memory_id) of None \<Rightarrow> [] | Some memory \<Rightarrow> [memory])
                      else if truthy_str session_id then
                        let keys = redis_scan_keys r (''session:'' @ the session_id @ '':*'')
                        in if keys \<noteq> []
                           then List.map_filter id (redis_get_multiple r (py_slice_to limit keys))
                           else []
                      else [])
               in Inr (Response 200
                    \<lparr>found_memories = results,
                     found_count = length results,
                     found_query = \<lparr>query_memory_id = memory_id,
                                     query_session_id = session_id,
                                     query_limit = limit\<rparr>\<rparr>))"

section \<open>\<^verbatim>\<open>handlers/working_handler.py\<close>\<close>

text \<open>
  \<^verbatim>\<open>models.WorkingMemoryCreate\<close>, \<^verbatim>\<open>WorkingMemoryBase\<close> (the stored record) and
  \<^verbatim>\<open>WorkingMemoryResponse\<close>. \<^verbatim>\<open>json.dumps\<close> is the library's, a parameter.
\<close>

record WorkingMemoryCreate =
  wmc_session_id :: string
  wmc_data :: json_dict
  wmc_metadata :: "json_dict option"
  wmc_ttl_seconds :: "int option"
  wmc_context :: "string option"

record WorkingMemoryBase =
  wm_memory_id :: string
  wm_content :: string
  wm_metadata :: "json_dict option"
  wm_ttl_seconds :: "int option"
  wm_timestamp :: string
  wm_context :: "string option"

record WorkingMemoryResponse =
  wr_memory_id :: string
  wr_tenant_id :: string
  wr_session_id :: string
  wr_data :: json_dict
  wr_content :: string
  wr_timestamp :: string
  wr_ttl_seconds :: "int option"
  wr_metadata :: "json_dict option"
  wr_context :: "string option"

text \<open>The handler object: its tenant. Its Redis adapter is passed to every method.\<close>

record WorkingMemoryHandler =
  wh_tenant_id :: string

definition working_key :: "string \<Rightarrow> string \<Rightarrow> string \<Rightarrow> string" where
  "working_key tenant_id session_id memory_id =
     ''tenant:'' @ tenant_id @ '':session:'' @ session_id @ '':memory:'' @ memory_id"

definition WorkingMemoryHandler_add_memory ::
  "(json_dict \<Rightarrow> string) \<Rightarrow> sys \<Rightarrow> WorkingMemoryHandler \<Rightarrow> WorkingMemoryCreate
     \<Rightarrow> WorkingMemoryBase redis
     \<Rightarrow> (py_error + WorkingMemoryResponse) \<times> WorkingMemoryBase redis" where
  "WorkingMemoryHandler_add_memory json_dumps sy self memory_data r =
     (let memory_id = generate_id ''wm'' sy;
          timestamp = utcnow sy;
          memory = \<lparr>wm_memory_id = memory_id,
                    wm_content = json_dumps (wmc_data memory_data),
                    wm_metadata =
                      Some (case wmc_metadata memory_data of
                              None \<Rightarrow> [] | Some m \<Rightarrow> if m = [] then [] else m),
                    wm_ttl_seconds =
                      Some (case wmc_ttl_seconds memory_data of
                              None \<Rightarrow> 3600 | Some t \<Rightarrow> if t = 0 then 3600 else t),
                    wm_timestamp = timestamp,
                    wm_context = Some (wmc_session_id memory_data)\<rparr>;
          redis_key = working_key (wh_tenant_id self) (wmc_session_id memory_data) memory_id
      in case redis_set r redis_key memory (wm_ttl_seconds memory) of
           (Inl e, r1) \<Rightarrow> (Inl e, r1)
         | (Inr success, r1) \<Rightarrow>
             if \<not> success then (Inl (StoreFailure ''Failed to store working memory''), r1)
             else (Inr \<lparr>wr_memory_id = wm_memory_id memory,
                        wr_tenant_id = wh_tenant_id self,
                        wr_session_id = wmc_session_id memory_data,
                        wr_data = wmc_data memory_data,
                        wr_content = wm_content memory,
                        wr_timestamp = wm_timestamp memory,
                        wr_ttl_seconds = wm_ttl_seconds memory,
                        wr_metadata = wm_metadata memory,
                        wr_context = wm_context memory\<rparr>, r1))"

text \<open>
  \<^verbatim>\<open>get_memories\<close>. For a key whose value is found, the loop builds the response with
  \<^verbatim>\<open>memory_id=mem.id\<close>; \<^verbatim>\<open>WorkingMemoryBase\<close> has the field \<^verbatim>\<open>memory_id\<close> and no \<^verbatim>\<open>id\<close>, so
  the attribute access raises \<^verbatim>\<open>AttributeError\<close>, which \<^verbatim>\<open>get_memories\<close> does not catch.
\<close>

fun get_memories_loop ::
  "WorkingMemoryBase redis \<Rightarrow> string list \<Rightarrow> py_error + WorkingMemoryResponse list" where
  "get_memories_loop r [] = Inr []"
| "get_memories_loop r (key # keys) =
     (case redis_get r key of
        None \<Rightarrow> get_memories_loop r keys
      | Some data \<Rightarrow> Inl AttributeError)"

definition WorkingMemoryHandler_get_memories ::
  "WorkingMemoryHandler \<Rightarrow> string option \<Rightarrow> int \<Rightarrow> WorkingMemoryBase redis
     \<Rightarrow> py_error + WorkingMemoryResponse list" where
  "WorkingMemoryHandler_get_memories self session_id limit r =
     (let pattern =
            (if truthy_str session_id
             then ''tenant:'' @ wh_tenant_id self @ '':session:'' @ the session_id @ '':memory:*''
             else ''tenant:'' @ wh_tenant_id self @ '':session:*:memory:*'');
          keys = py_slice_to limit (redis_keys r pattern)
      in get_memories_loop r keys)"

section \<open>\<^verbatim>\<open>services/dynamodb.py\<close>: the document store\<close>

text \<open>
  A DynamoDB table: whether it can be reached, its key schema (the partition key and the sort
  key of an item; the schema is part of the deployment, not of the repository, so both are
  parameters, and a table without a sort key has the sort key \<open>()\<close>), and its items in the
  order a query returns them, ascending in the sort key. \<^verbatim>\<open>put_item\<close> replaces the item with
  the same primary key (partition key and sort key) and keeps the items in that order.
\<close>

record ('i, 'p, 's) dynamo =
  table_available :: bool
  table_partition :: "'i \<Rightarrow> 'p"
  table_sort :: "'i \<Rightarrow> 's"
  table_items :: "'i list"

definition primary_key :: "('i, 'p, 's) dynamo \<Rightarrow> 'i \<Rightarrow> 'p \<times> 's" where
  "primary_key t item = (table_partition t item, table_sort t item)"

text \<open>\<^verbatim>\<open>DynamoDBAdapter.put_item\<close>: \<^verbatim>\<open>True\<close>, or \<^verbatim>\<open>False\<close> when the table raised.\<close>

definition put_item ::
  "('i, 'p, 's::linorder) dynamo \<Rightarrow> 'i \<Rightarrow> bool \<times> ('i, 'p, 's) dynamo" where
  "put_item t item =
     (if table_available t
      then (True, t\<lparr>table_items :=
                      insort_key (table_sort t) item
                        (filter (\<lambda>j. primary_key t j \<noteq> primary_key t item) (table_items t))\<rparr>)
      else (False, t))"

text \<open>
  \<^verbatim>\<open>DynamoDBAdapter.query_items\<close> with a key condition and a filter expression, both
  predicates on items: the items that satisfy both, or \<^verbatim>\<open>[]\<close> when the table raised.
\<close>

definition query_items ::
  "('i, 'p, 's) dynamo \<Rightarrow> ('i \<Rightarrow> bool) \<Rightarrow> ('i \<Rightarrow> bool) \<Rightarrow> 'i list" where
  "query_items t key_condition filter_expression =
     (if table_available t
      then filter (\<lambda>i. key_condition i \<and> filter_expression i) (table_items t)
      else [])"

section \<open>\<^verbatim>\<open>handlers/longterm_handler.py\<close>\<close>

text \<open>
  \<^verbatim>\<open>models.LongTermMemoryCreate\<close> (the payload, with a \<^verbatim>\<open>tenant_id\<close> of its own), the item
  written to the table, and \<^verbatim>\<open>models.LongTermMemoryResponse\<close>.
\<close>

record LongTermMemoryCreate =
  ltc_tenant_id :: string
  ltc_metadata :: "json_dict option"
  ltc_entity_id :: string
  ltc_summary :: string
  ltc_related_entities :: "string list"
  ltc_id :: "string option"

record ltm_item =
  item_id :: string
  item_entity_id :: string
  item_summary :: string
  item_metadata :: json_dict
  item_timestamp :: string
  item_tenant_id :: string

record LongTermMemoryResponse =
  lr_memory_id :: string
  lr_entity_id :: string
  lr_summary :: string
  lr_metadata :: json_dict
  lr_timestamp :: string
  lr_tenant_id :: string
  lr_related_entities :: "string list"
  lr_id :: "string option"

record LongTermMemoryHandler =
  lh_tenant_id :: string

definition LongTermMemoryHandler_update_memory ::
  "sys \<Rightarrow> LongTermMemoryHandler \<Rightarrow> LongTermMemoryCreate
     \<Rightarrow> (ltm_item, 'p, 's::linorder) dynamo
     \<Rightarrow> (py_error + LongTermMemoryResponse) \<times> (ltm_item, 'p, 's) dynamo" where
  "LongTermMemoryHandler_update_memory sy self memory_data t =
     (let memory_id = (if truthy_str (ltc_id memory_data) then the (ltc_id memory_data)
                       else generate_id ''ltm'' sy);
          timestamp = utcnow sy;
          metadata = (case ltc_metadata memory_data of None \<Rightarrow> [] | Some m \<Rightarrow> m);
          item = \<lparr>item_id = memory_id,
                  item_entity_id = ltc_entity_id memory_data,
                  item_summary = ltc_summary memory_data,
                  item_metadata = metadata,
                  item_timestamp = timestamp,
                  item_tenant_id = lh_tenant_id self\<rparr>
      in case put_item t item of
           (success, t') \<Rightarrow>
             if \<not> success then (Inl (StoreFailure ''Failed to store long-term memory''), t')
             else (Inr \<lparr>lr_memory_id = memory_id,
                        lr_entity_id = ltc_entity_id memory_data,
                        lr_summary = ltc_summary memory_data,
                        lr_metadata = metadata,
                        lr_timestamp = timestamp,
                        lr_tenant_id = lh_tenant_id self,
                        lr_related_entities = [],
                        lr_id = None\<rparr>, t'))"

definition LongTermMemoryHandler_get_memory ::
  "LongTermMemoryHandler \<Rightarrow> string \<Rightarrow> (ltm_item, 'p, 's) dynamo
     \<Rightarrow> LongTermMemoryResponse option" where
  "LongTermMemoryHandler_get_memory self entity_id t =
     (let results = query_items t (\<lambda>i. item_entity_id i = entity_id)
                      (\<lambda>i. item_tenant_id i = lh_tenant_id self)
      in case results of
           [] \<Rightarrow> None
         | r # _ \<Rightarrow>
             Some \<lparr>lr_memory_id = item_id r,
                   lr_entity_id = item_entity_id r,
                   lr_summary = item_summary r,
                   lr_metadata = item_metadata r,
                   lr_timestamp = item_timestamp r,
                   lr_tenant_id = lh_tenant_id self,
                   lr_related_entities = [],
                   lr_id = None\<rparr>)"

text \<open>
  The Lambda entry point. The event: its \<^verbatim>\<open>headers\<close>, the upper-cased HTTP method
  (\<^verbatim>\<open>GET\<close> when absent), the \<^verbatim>\<open>entity_id\<close> query parameter and the parsed body.
  The \<^verbatim>\<open>headers\<close> of an event are absent, \<^verbatim>\<open>null\<close>, or a dictionary, of which the model
  keeps the \<^verbatim>\<open>X-Tenant-ID\<close> entry (\<open>None\<close>: the dictionary has none). The handler evaluates
  \<^verbatim>\<open>event.get("headers", {}).get("X-Tenant-ID", "default_tenant")\<close>: on \<^verbatim>\<open>null\<close> headers the
  second \<^verbatim>\<open>get\<close> raises \<^verbatim>\<open>AttributeError\<close>, which the handler answers with 500 and the
  text of the exception.
  The body is a dictionary; the handler reads \<^verbatim>\<open>entity_id\<close>, \<^verbatim>\<open>summary\<close>, \<^verbatim>\<open>metadata\<close> and
  \<^verbatim>\<open>id\<close> from it, and never a \<^verbatim>\<open>tenant_id\<close> the caller put there.
\<close>

datatype http_method = GET | POST | OtherMethod string

datatype event_headers = NoHeaders | NullHeaders | Headers "string option"

definition none_has_no_get :: string where
  "none_has_no_get =
     [CHR 0x27] @ ''NoneType'' @ [CHR 0x27] @ '' object has no attribute ''
       @ [CHR 0x27] @ ''get'' @ [CHR 0x27]"

definition header_tenant :: "event_headers \<Rightarrow> py_error + string" where
  "header_tenant headers =
     (case headers of
        NoHeaders \<Rightarrow> Inr ''default_tenant''
      | NullHeaders \<Rightarrow> Inl AttributeError
      | Headers None \<Rightarrow> Inr ''default_tenant''
      | Headers (Some h) \<Rightarrow> Inr h)"

record ltm_body =
  lb_entity_id :: "string option"
  lb_summary :: "string option"
  lb_metadata :: "json_dict option"
  lb_id :: "string option"
  lb_tenant_id :: "string option"

record ltm_event =
  le_headers :: event_headers
  le_method :: http_method
  le_param_entity_id :: "string option"
  le_body :: "ltm_body option"

definition error_message :: "py_error \<Rightarrow> string" where
  "error_message e = (case e of StoreFailure m \<Rightarrow> m | _ \<Rightarrow> [])"

definition missing_fields :: "ltm_body \<Rightarrow> string list" where
  "missing_fields body =
     (if lb_entity_id body = None then [''entity_id''] else [])
     @ (if lb_summary body = None then [''summary''] else [])"

fun join_comma :: "string list \<Rightarrow> string" where
  "join_comma [] = []"
| "join_comma [x] = x"
| "join_comma (x # y # zs) = x @ '', '' @ join_comma (y # zs)"

definition longterm_lambda_handler ::
  "sys \<Rightarrow> ltm_event \<Rightarrow> (ltm_item, 'p, 's::linorder) dynamo
     \<Rightarrow> LongTermMemoryResponse response \<times> (ltm_item, 'p, 's) dynamo" where
  "longterm_lambda_handler sy event t =
     (case header_tenant (le_headers event) of
        Inl e \<Rightarrow> (ErrorResponse 500 none_has_no_get, t)
      | Inr tenant_id \<Rightarrow>
          let ltm_handler = \<lparr>lh_tenant_id = tenant_id\<rparr>
          in case le_method event of
               GET \<Rightarrow>
                 if \<not> truthy_str (le_param_entity_id event)
                 then (ErrorResponse 400 ''entity_id parameter is required'', t)
                 else
                   (case LongTermMemoryHandler_get_memory ltm_handler
                           (the (le_param_entity_id event)) t of
                      None \<Rightarrow>
                        (ErrorResponse 404
                           (''Memory for entity_id '' @ the (le_param_entity_id event)
                              @ '' not found''), t)
                    | Some memory \<Rightarrow> (Response 200 memory, t))
             | POST \<Rightarrow>
                 (case le_body event of
                    None \<Rightarrow> (ErrorResponse 400 ''Request body is required'', t)
                  | Some body \<Rightarrow>
                      if missing_fields body \<noteq> []
                      then (ErrorResponse 400
                              (''Missing required fields: '' @ join_comma (missing_fields body)),
                            t)
                      else
                        let memory_data = \<lparr>ltc_tenant_id = tenant_id,
                                             ltc_metadata = lb_metadata body,
                                             ltc_entity_id = the (lb_entity_id body),
                                             ltc_summary = the (lb_summary body),
                                             ltc_related_entities = [],
                                             ltc_id = lb_id body\<rparr>
                        in case LongTermMemoryHandler_update_memory sy ltm_handler memory_data t of
                             (Inl e, t') \<Rightarrow> (ErrorResponse 500 (error_message e), t')
                           | (Inr response, t') \<Rightarrow> (Response 201 response, t'))
             | OtherMethod m \<Rightarrow>
                 (ErrorResponse 405 (''HTTP method '' @ m @ '' not allowed''), t))"

section \<open>\<^verbatim>\<open>services/opensearch.py\<close>: the search index\<close>

text \<open>
  Python floats that a query parameter can denote: \<^verbatim>\<open>float\<close> accepts \<^verbatim>\<open>nan\<close>, \<^verbatim>\<open>inf\<close> and
  \<^verbatim>\<open>-inf\<close> besides numbers. Every comparison with NaN is false. \<^verbatim>\<open>max(a, b)\<close> keeps \<open>a\<close>
  unless \<open>b\<close> is greater, \<^verbatim>\<open>min(a, b)\<close> keeps \<open>a\<close> unless \<open>b\<close> is less.
\<close>

datatype pyfloat = Finite real | PosInf | NegInf | NaN

fun py_less :: "pyfloat \<Rightarrow> pyfloat \<Rightarrow> bool" where
  "py_less NaN b = False"
| "py_less a NaN = False"
| "py_less (Finite x) (Finite y) = (x < y)"
| "py_less (Finite x) PosInf = True"
| "py_less (Finite x) NegInf = False"
| "py_less PosInf b = False"
| "py_less NegInf NegInf = False"
| "py_less NegInf b = True"

definition py_max :: "pyfloat \<Rightarrow> pyfloat \<Rightarrow> pyfloat" where
  "py_max a b = (if py_less a b then b else a)"

definition py_min :: "pyfloat \<Rightarrow> pyfloat \<Rightarrow> pyfloat" where
  "py_min a b = (if py_less b a then b else a)"

text \<open>
  The document of the semantic tier. Its metadata is the caller's dictionary after
  \<^verbatim>\<open>metadata.update\<close> has set the four keys the handler owns; the other keys are kept.
\<close>

record sem_metadata =
  md_other :: json_dict
  md_agent_id :: string
  md_tenant_id :: string
  md_source_type :: string
  md_source_id :: "string option"

record sem_document =
  doc_id :: string
  doc_content :: string
  doc_embedding :: "real list"
  doc_metadata :: sem_metadata
  doc_tags :: "string list"
  doc_timestamp :: string
  doc_version :: nat
  doc_relevance_score :: real

record os_hit =
  hit_source :: sem_document
  hit_score :: real

datatype os_query =
    VectorQuery int pyfloat "real list"
  | TextQuery int string

text \<open>
  The OpenSearch client, by what its calls return or raise: \<^verbatim>\<open>indices.exists\<close>,
  \<^verbatim>\<open>indices.create\<close>, \<^verbatim>\<open>index\<close> (the \<^verbatim>\<open>result\<close> field of its response) and \<^verbatim>\<open>search\<close>
  (the hits; scoring is the engine's), and the documents indexed so far.
\<close>

record os_client =
  cl_exists :: "py_error + bool"
  cl_create :: "py_error + unit"
  cl_index :: "py_error + string"
  cl_search :: "os_query \<Rightarrow> py_error + os_hit list"
  cl_docs :: "(string \<times> sem_document) list"

text \<open>
  \<^verbatim>\<open>OpenSearchAdapter.__init__\<close> calls \<^verbatim>\<open>_ensure_index\<close>, which asks whether the index
  exists and creates it when it does not. Neither call is guarded: an exception leaves the
  constructor.
\<close>

definition OpenSearchAdapter :: "os_client \<Rightarrow> py_error + os_client" where
  "OpenSearchAdapter c =
     (case cl_exists c of
        Inl e \<Rightarrow> Inl e
      | Inr True \<Rightarrow> Inr c
      | Inr False \<Rightarrow> (case cl_create c of Inl e \<Rightarrow> Inl e | Inr _ \<Rightarrow> Inr c))"

definition add_document :: "os_client \<Rightarrow> string \<Rightarrow> sem_document \<Rightarrow> bool \<times> os_client" where
  "add_document a document_id document =
     (case cl_index a of
        Inl e \<Rightarrow> (False, a)
      | Inr result \<Rightarrow>
          (result \<in> set [''created'', ''updated''],
           a\<lparr>cl_docs := (document_id, document) # cl_docs a\<rparr>))"

definition search_vector :: "os_client \<Rightarrow> real list \<Rightarrow> int \<Rightarrow> pyfloat \<Rightarrow> sem_document list" where
  "search_vector a vector result_size min_score =
     (case cl_search a (VectorQuery result_size min_score vector) of
        Inl e \<Rightarrow> []
      | Inr hits \<Rightarrow>
          map (\<lambda>hit. (hit_source hit)\<lparr>doc_relevance_score := hit_score hit - 1\<rparr>) hits)"

definition search_text :: "os_client \<Rightarrow> string \<Rightarrow> int \<Rightarrow> sem_document list" where
  "search_text a query_text result_size =
     (case cl_search a (TextQuery result_size query_text) of
        Inl e \<Rightarrow> []
      | Inr hits \<Rightarrow> map (\<lambda>hit. (hit_source hit)\<lparr>doc_relevance_score := hit_score hit\<rparr>) hits)"

section \<open>\<^verbatim>\<open>handlers/semantic_handler.py\<close>\<close>

text \<open>
  \<^verbatim>\<open>generate_embedding\<close>: 768 numbers read off the MD5 hex digest of the text. The digest is
  \<^verbatim>\<open>hashlib\<close>'s, a parameter; it consists of 32 hexadecimal digits.
\<close>

definition hex_value :: "char \<Rightarrow> nat" where
  "hex_value c = (case map_of (zip ''0123456789abcdef'' [0..<16]) c of None \<Rightarrow> 0 | Some n \<Rightarrow> n)"

definition generate_embedding :: "(string \<Rightarrow> string) \<Rightarrow> string \<Rightarrow> real list" where
  "generate_embedding md5_hexdigest text =
     map (\<lambda>i. real (hex_value (md5_hexdigest text ! (i mod 32))) / 15 - 1) [0..<768]"

text \<open>
  The body of a semantic write, a dictionary (a field is \<open>None\<close> when its key is absent), and
  the query parameters of a semantic read, strings as the gateway delivers them.
\<close>

record sem_body =
  sb_content :: "string option"
  sb_embedding :: "real list option"
  sb_metadata :: "json_dict option"
  sb_agent_id :: "string option"
  sb_tenant_id :: "string option"
  sb_source_type :: "string option"
  sb_source_id :: "string option"
  sb_tags :: "string list option"

record sem_params =
  sp_query :: "string option"
  sp_search_type :: "string option"
  sp_limit :: "string option"
  sp_min_score :: "string option"
  sp_tenant_id :: "string option"
  sp_agent_id :: "string option"

datatype sem_payload =
    StoredPayload string string
  | FoundPayload nat "sem_document list"

definition owned_keys :: "string list" where
  "owned_keys = [''agent_id'', ''tenant_id'', ''source_type'', ''source_id'']"

definition handle_add_memory ::
  "(string \<Rightarrow> string) \<Rightarrow> sys \<Rightarrow> sem_body \<Rightarrow> os_client \<Rightarrow> sem_payload response \<times> os_client" where
  "handle_add_memory md5_hexdigest sy body adapter =
     (if \<not> truthy_str (sb_content body)
      then (ErrorResponse 400 ''Missing required field: content'', adapter)
      else
        let content = the (sb_content body);
            embedding = (case sb_embedding body of
                           None \<Rightarrow> generate_embedding md5_hexdigest content
                         | Some e \<Rightarrow> if e \<noteq> [] then e
                                     else generate_embedding md5_hexdigest content)
        in if length embedding \<noteq> 768
           then (ErrorResponse 400 ''Invalid embedding format'', adapter)
           else
             let metadata =
                   \<lparr>md_other = filter (\<lambda>kv. fst kv \<notin> set owned_keys)
                                 (case sb_metadata body of None \<Rightarrow> [] | Some m \<Rightarrow> m),
                    md_agent_id =
                      (case sb_agent_id body of None \<Rightarrow> ''unknown_agent'' | Some v \<Rightarrow> v),
                    md_tenant_id =
                      (case sb_tenant_id body of None \<Rightarrow> ''default_tenant'' | Some v \<Rightarrow> v),
                    md_source_type =
                      (case sb_source_type body of None \<Rightarrow> ''unknown'' | Some v \<Rightarrow> v),
                    md_source_id = sb_source_id body\<rparr>;
                 memory_id = generate_id ''sem'' sy;
                 document =
                   \<lparr>doc_id = memory_id,
                    doc_content = content,
                    doc_embedding = embedding,
                    doc_metadata = metadata,
                    doc_tags = (case sb_tags body of None \<Rightarrow> [] | Some ts \<Rightarrow> ts),
                    doc_timestamp = utcnow sy,
                    doc_version = 1,
                    doc_relevance_score = 0\<rparr>
             in case add_document adapter memory_id document of
                  (success, adapter') \<Rightarrow>
                    if \<not> success
                    then (ErrorResponse 500 ''Failed to store semantic memory'', adapter')
                    else (Response 201
                            (StoredPayload ''Semantic memory stored successfully'' memory_id),
                          adapter'))"

text \<open>
  The two clamped query parameters of \<^verbatim>\<open>handle_query_memory\<close>. \<^verbatim>\<open>int\<close> and \<^verbatim>\<open>float\<close> are
  Python's, parameters: \<open>None\<close> when they raise \<^verbatim>\<open>ValueError\<close>.
\<close>

definition query_limit :: "(string \<Rightarrow> int option) \<Rightarrow> sem_params \<Rightarrow> py_error + int" where
  "query_limit py_int params =
     (case (case sp_limit params of None \<Rightarrow> Some 10 | Some l \<Rightarrow> py_int l) of
        None \<Rightarrow> Inl ValueError
      | Some n \<Rightarrow> Inr (min (max n 1) 100))"

definition query_min_score ::
  "(string \<Rightarrow> pyfloat option) \<Rightarrow> sem_params \<Rightarrow> py_error + pyfloat" where
  "query_min_score py_float params =
     (case (case sp_min_score params of None \<Rightarrow> Some (Finite 0.7) | Some m \<Rightarrow> py_float m) of
        None \<Rightarrow> Inl ValueError
      | Some x \<Rightarrow> Inr (py_min (py_max x (Finite 0)) (Finite 1)))"

text \<open>
  \<^verbatim>\<open>handle_query_memory\<close>. After the parameters (and the filters on \<^verbatim>\<open>metadata.tenant_id\<close>
  and \<^verbatim>\<open>metadata.agent_id\<close>, built from the query parameters) the handler calls
  \<^verbatim>\<open>adapter.search_by_vector\<close> or \<^verbatim>\<open>adapter.search_by_text\<close>. \<^verbatim>\<open>OpenSearchAdapter\<close> defines
  \<^verbatim>\<open>search_vector\<close> and \<^verbatim>\<open>search_text\<close> and neither of the called names, so the attribute
  access raises \<^verbatim>\<open>AttributeError\<close>.
\<close>

definition handle_query_memory ::
  "(string \<Rightarrow> int option) \<Rightarrow> (string \<Rightarrow> pyfloat option) \<Rightarrow> sem_params \<Rightarrow> os_client
     \<Rightarrow> py_error + sem_payload response" where
  "handle_query_memory py_int py_float params adapter =
     (if \<not> truthy_str (sp_query params)
      then Inr (ErrorResponse 400 ''Query parameter is required'')
      else
        let search_type = (case sp_search_type params of None \<Rightarrow> ''vector'' | Some t \<Rightarrow> t)
        in case query_limit py_int params of
             Inl e \<Rightarrow> Inl e
           | Inr limit \<Rightarrow>
               (case query_min_score py_float params of
                  Inl e \<Rightarrow> Inl e
                | Inr min_score \<Rightarrow>
                    if search_type = ''vector'' then Inl AttributeError
                    else if search_type = ''text'' then Inl AttributeError
                    else Inr (ErrorResponse 400
                           (''Invalid search_type. Use '' @ [CHR 0x27] @ ''vector'' @ [CHR 0x27]
                              @ '' or '' @ [CHR 0x27] @ ''text'' @ [CHR 0x27]))))"

text \<open>
  The Lambda entry point: the upper-cased method, the \<^verbatim>\<open>X-Tenant-ID\<close> header (never read by
  this module), the body and the query parameters; \<^verbatim>\<open>OPENSEARCH_ENDPOINT\<close> is the environment
  variable. Any exception becomes the response 500.
\<close>

record sem_event =
  se_method :: http_method
  se_header_tenant :: "string option"
  se_body :: sem_body
  se_params :: sem_params

definition semantic_lambda_handler ::
  "(string \<Rightarrow> int option) \<Rightarrow> (string \<Rightarrow> pyfloat option) \<Rightarrow> (string \<Rightarrow> string) \<Rightarrow> sys
     \<Rightarrow> string option \<Rightarrow> sem_event \<Rightarrow> os_client \<Rightarrow> sem_payload response \<times> os_client" where
  "semantic_lambda_handler py_int py_float md5_hexdigest sy opensearch_endpoint event c =
     (if \<not> truthy_str opensearch_endpoint
      then (ErrorResponse 500 ''Missing OPENSEARCH_ENDPOINT environment variable'', c)
      else
        case OpenSearchAdapter c of
          Inl e \<Rightarrow> (ErrorResponse 500 ''Internal server error'', c)
        | Inr adapter \<Rightarrow>
            (case se_method event of
               POST \<Rightarrow> handle_add_memory md5_hexdigest sy (se_body event) adapter
             | GET \<Rightarrow>
                 (case handle_query_memory py_int py_float (se_params event) adapter of
                    Inl e \<Rightarrow> (ErrorResponse 500 ''Internal server error'', adapter)
                  | Inr response \<Rightarrow> (response, adapter))
             | OtherMethod m \<Rightarrow> (ErrorResponse 405 (''Unsupported method: '' @ m), adapter)))"

section \<open>Observations on a write\<close>

text \<open>
  What a successful write leaves behind, read off the handler's result: the TTL in the
  response, the \<^verbatim>\<open>ttl_seconds\<close> of the record stored under the write's key, and the expiry
  the store holds for that key. \<open>None\<close> when the write did not succeed or left no record.
\<close>

definition short_write_ttl ::
  "sys \<Rightarrow> stm_body \<Rightarrow> ShorttermMemory redis \<Rightarrow> (int \<times> int \<times> int option) option" where
  "short_write_ttl sy body r =
     (case ShorttermMemoryHandler_add_memory sy body r of
        (Inr (Response status created), r') \<Rightarrow>
          (case map_of (entries r') (generate_id ''stm'' sy) of
             None \<Rightarrow> None
           | Some (memory, expiry) \<Rightarrow>
               Some (created_ttl_seconds created, stm_ttl_seconds memory, expiry))
      | _ \<Rightarrow> None)"

definition working_write_ttl ::
  "(json_dict \<Rightarrow> string) \<Rightarrow> sys \<Rightarrow> WorkingMemoryHandler \<Rightarrow> WorkingMemoryCreate
     \<Rightarrow> WorkingMemoryBase redis \<Rightarrow> (int option \<times> int option \<times> int option) option" where
  "working_write_ttl json_dumps sy self memory_data r =
     (case WorkingMemoryHandler_add_memory json_dumps sy self memory_data r of
        (Inr resp, r') \<Rightarrow>
          (case map_of (entries r')
                  (working_key (wh_tenant_id self) (wmc_session_id memory_data)
                     (generate_id ''wm'' sy)) of
             None \<Rightarrow> None
           | Some (memory, expiry) \<Rightarrow>
               Some (wr_ttl_seconds resp, wm_ttl_seconds memory, expiry))
      | _ \<Rightarrow> None)"

text \<open>Values used in the concrete examples.\<close>

definition ex_sys :: sys where
  "ex_sys = \<lparr>uuid4 = ''u1'', utcnow = ''2024-01-01T00:00:00''\<rparr>"

definition empty_redis :: "'v redis" where
  "empty_redis = \<lparr>reachable = True, max_expire = 9223372036854775, entries = []\<rparr>"

definition ex_stm_body :: stm_body where
  "ex_stm_body = \<lparr>body_content = Some ''secret'', body_metadata = None,
                   body_ttl_seconds = None, body_session_id = None,
                   body_tenant_id = Some ''tenantA''\<rparr>"

definition ex_wm_create :: WorkingMemoryCreate where
  "ex_wm_create = \<lparr>wmc_session_id = ''s1'', wmc_data = [], wmc_metadata = None,
                    wmc_ttl_seconds = None, wmc_context = None\<rparr>"

text \<open>\<^verbatim>\<open>json.dumps\<close> on the data of the examples, the empty dictionary.\<close>

definition ex_json_dumps :: "json_dict \<Rightarrow> string" where
  "ex_json_dumps d = ''{}''"

text \<open>
  The tenant a successful long-term write leaves behind: the one in the response, and the
  tenants of the items the table then holds under the primary key of the written item (the
  item carries the values of the response).
\<close>

definition item_of_response :: "LongTermMemoryResponse \<Rightarrow> ltm_item" where
  "item_of_response resp =
     \<lparr>item_id = lr_memory_id resp,
      item_entity_id = lr_entity_id resp,
      item_summary = lr_summary resp,
      item_metadata = lr_metadata resp,
      item_timestamp = lr_timestamp resp,
      item_tenant_id = lr_tenant_id resp\<rparr>"

definition stored_tenants ::
  "LongTermMemoryResponse \<Rightarrow> (ltm_item, 'p, 's) dynamo \<Rightarrow> string \<times> string list" where
  "stored_tenants resp t =
     (lr_tenant_id resp,
      map item_tenant_id
        (filter (\<lambda>j. primary_key t j = primary_key t (item_of_response resp)) (table_items t)))"

definition long_write_tenant ::
  "sys \<Rightarrow> LongTermMemoryHandler \<Rightarrow> LongTermMemoryCreate
     \<Rightarrow> (ltm_item, 'p, 's::linorder) dynamo \<Rightarrow> (string \<times> string list) option" where
  "long_write_tenant sy self memory_data t =
     (case LongTermMemoryHandler_update_memory sy self memory_data t of
        (Inr resp, t') \<Rightarrow> Some (stored_tenants resp t')
      | _ \<Rightarrow> None)"

definition lambda_write_tenant ::
  "sys \<Rightarrow> ltm_event \<Rightarrow> (ltm_item, 'p, 's::linorder) dynamo
     \<Rightarrow> (string \<times> string list) option" where
  "lambda_write_tenant sy event t =
     (case longterm_lambda_handler sy event t of
        (Response status resp, t') \<Rightarrow> Some (stored_tenants resp t')
      | _ \<Rightarrow> None)"

text \<open>The tenant in the metadata of the document a successful semantic write indexed.\<close>

definition semantic_write_tenant ::
  "(string \<Rightarrow> string) \<Rightarrow> sys \<Rightarrow> sem_body \<Rightarrow> os_client \<Rightarrow> string option" where
  "semantic_write_tenant md5_hexdigest sy body adapter =
     (case handle_add_memory md5_hexdigest sy body adapter of
        (Response status payload, adapter') \<Rightarrow>
          (case cl_docs adapter' of
             [] \<Rightarrow> None
           | (document_id, document) # _ \<Rightarrow> Some (md_tenant_id (doc_metadata document)))
      | _ \<Rightarrow> None)"

text \<open>Whether a clamped score lies in the interval from 0 to 1.\<close>

definition in_unit_interval :: "pyfloat \<Rightarrow> bool" where
  "in_unit_interval x = (case x of Finite v \<Rightarrow> 0 \<le> v \<and> v \<le> 1 | _ \<Rightarrow> False)"

text \<open>
  More values for the concrete examples: a long-term table with the entity as partition key
  and the id as sort key that holds a
  record of tenant A and one of tenant B for the same entity; an index that answers and one
  that cannot be reached; the MD5 digest of the content \<^verbatim>\<open>c\<close>; and \<^verbatim>\<open>int\<close> and \<^verbatim>\<open>float\<close> on
  the parameter strings used.
\<close>

definition ex_table :: "(ltm_item, string, string) dynamo" where
  "ex_table =
     \<lparr>table_available = True,
      table_partition = item_entity_id,
      table_sort = item_id,
      table_items =
        [\<lparr>item_id = ''ltm_a'', item_entity_id = ''e1'', item_summary = ''summary of A'',
          item_metadata = [], item_timestamp = ''2024-01-01T00:00:00'',
          item_tenant_id = ''tenantA''\<rparr>,
         \<lparr>item_id = ''ltm_b'', item_entity_id = ''e1'', item_summary = ''summary of B'',
          item_metadata = [], item_timestamp = ''2024-01-02T00:00:00'',
          item_tenant_id = ''tenantB''\<rparr>]\<rparr>"

definition ex_ltm_create :: LongTermMemoryCreate where
  "ex_ltm_create =
     \<lparr>ltc_tenant_id = ''tenantB'', ltc_metadata = None, ltc_entity_id = ''e2'',
      ltc_summary = ''a summary'', ltc_related_entities = [], ltc_id = None\<rparr>"

definition ex_ltm_event :: ltm_event where
  "ex_ltm_event =
     \<lparr>le_headers = Headers (Some ''tenantA''), le_method = POST, le_param_entity_id = None,
      le_body = Some \<lparr>lb_entity_id = Some ''e2'', lb_summary = Some ''a summary'',
                      lb_metadata = None, lb_id = None, lb_tenant_id = Some ''tenantB''\<rparr>\<rparr>"

definition healthy_index :: os_client where
  "healthy_index =
     \<lparr>cl_exists = Inr True, cl_create = Inr (), cl_index = Inr ''created'',
      cl_search = (\<lambda>q. Inr []), cl_docs = []\<rparr>"

definition unreachable_index :: os_client where
  "unreachable_index =
     \<lparr>cl_exists = Inl ConnectionError, cl_create = Inl ConnectionError,
      cl_index = Inl ConnectionError, cl_search = (\<lambda>q. Inl ConnectionError), cl_docs = []\<rparr>"

definition md5_examples :: "string \<Rightarrow> string" where
  "md5_examples s =
     (if s = ''c'' then ''4a8a08f09d37b73795649038408b5f33'' else replicate 32 (CHR ''0''))"

definition py_int_examples :: "string \<Rightarrow> int option" where
  "py_int_examples s =
     (if s = ''500'' then Some 500 else if s = ''-3'' then Some (- 3) else None)"

definition py_float_examples :: "string \<Rightarrow> pyfloat option" where
  "py_float_examples s =
     (if s = ''nan'' then Some NaN
      else if s = ''1.5'' then Some (Finite 1.5)
      else if s = ''inf'' then Some PosInf
      else None)"

definition ex_sem_body :: sem_body where
  "ex_sem_body =
     \<lparr>sb_content = Some ''c'', sb_embedding = None, sb_metadata = None, sb_agent_id = None,
      sb_tenant_id = Some ''tenantB'', sb_source_type = None, sb_source_id = None,
      sb_tags = None\<rparr>"

definition ex_sem_params :: sem_params where
  "ex_sem_params =
     \<lparr>sp_query = Some ''q'', sp_search_type = None, sp_limit = None, sp_min_score = None,
      sp_tenant_id = None, sp_agent_id = None\<rparr>"

definition ex_sem_post :: sem_event where
  "ex_sem_post =
     \<lparr>se_method = POST, se_header_tenant = Some ''tenantA'', se_body = ex_sem_body,
      se_params = ex_sem_params\<rparr>"

definition ex_sem_get :: sem_event where
  "ex_sem_get =
     \<lparr>se_method = GET, se_header_tenant = Some ''tenantA'', se_body = ex_sem_body,
      se_params = ex_sem_params\<rparr>"

definition ex_stm_params :: stm_params where
  "ex_stm_params =
     \<lparr>param_memory_id = Some ''stm_u1'', param_session_id = None, param_limit = None,
      param_tenant_id = Some ''tenantB''\<rparr>"

section \<open>Properties of the cosine similarity\<close>

lemma calculate_relevance_score_empty:
  "calculate_relevance_score float_zero float_quotient [] d = Inr float_zero"
  "calculate_relevance_score float_zero float_quotient q [] = Inr float_zero"
  by (simp_all add: calculate_relevance_score_def)

lemma calculate_relevance_score_small_zero:
  assumes "q \<noteq> []" and "d \<noteq> []"
    and "\<not> int_too_large_for_float (sum_list (map (\<lambda>a. a * a) q))"
    and "\<not> int_too_large_for_float (sum_list (map (\<lambda>b. b * b) d))"
    and "sum_list (map (\<lambda>a. a * a) q) = 0 \<or> sum_list (map (\<lambda>b. b * b) d) = 0"
  shows "calculate_relevance_score float_zero float_quotient q d = Inr float_zero"
  using assms by (auto simp: calculate_relevance_score_def Let_def)




section \<open>Properties of merging and ranking\<close>

lemma descending_sorted_reverse: "descending k (sorted_reverse k xs)"
proof -
  have "sorted (map k (sort_key k (rev xs)))"
    by (rule sorted_sort_key)
  then have "sorted_wrt (\<lambda>x y. k x \<le> k y) (sort_key k (rev xs))"
    by (simp add: sorted_wrt_map)
  then show ?thesis
    by (simp add: descending_def sorted_reverse_def sorted_wrt_rev)
qed

lemma sorted_reverse_id:
  assumes "descending k ys"
  shows "sorted_reverse k ys = ys"
proof -
  from assms have "sorted (map k (rev ys))"
    by (simp add: descending_def sorted_wrt_map sorted_wrt_rev)
  then have "sort_key k (rev ys) = rev ys"
    by (rule sort_key_id_if_sorted)
  then show ?thesis
    by (simp add: sorted_reverse_def)
qed

lemma set_sorted_reverse: "set (sorted_reverse k xs) = set xs"
  by (simp add: sorted_reverse_def)

lemma length_sorted_reverse: "length (sorted_reverse k xs) = length xs"
  by (simp add: sorted_reverse_def)

lemma set_unique_loop: "set (unique_loop sha ys seen) \<subseteq> set ys"
  by (induction ys arbitrary: seen) (auto simp: Let_def)

lemma length_unique_loop: "length (unique_loop sha ys seen) \<le> length ys"
  by (induction ys arbitrary: seen) (auto simp: Let_def le_SucI)

lemma sorted_wrt_unique_loop:
  "sorted_wrt R ys \<Longrightarrow> sorted_wrt R (unique_loop sha ys seen)"
proof (induction ys arbitrary: seen)
  case Nil
  then show ?case by simp
next
  case (Cons y ys)
  have sub: "set (unique_loop sha ys s) \<subseteq> set ys" for s
    by (rule set_unique_loop)
  from Cons show ?case
    using sub by (auto simp: Let_def)
qed

lemma unique_loop_unseen:
  "x \<in> set (unique_loop sha ys seen) \<Longrightarrow> fingerprint sha x \<notin> seen"
  by (induction ys arbitrary: seen) (auto simp: Let_def split: if_splits)

lemma distinct_unique_loop:
  "distinct (map (fingerprint sha) (unique_loop sha ys seen))"
proof (induction ys arbitrary: seen)
  case Nil
  then show ?case by simp
next
  case (Cons y ys)
  have "fingerprint sha y \<notin> fingerprint sha ` set (unique_loop sha ys (insert (fingerprint sha y) seen))"
  proof
    assume "fingerprint sha y \<in> fingerprint sha ` set (unique_loop sha ys (insert (fingerprint sha y) seen))"
    then obtain x where x: "x \<in> set (unique_loop sha ys (insert (fingerprint sha y) seen))"
        and eq: "fingerprint sha y = fingerprint sha x"
      by blast
    from x have "fingerprint sha x \<notin> insert (fingerprint sha y) seen"
      by (rule unique_loop_unseen)
    with eq show False
      by simp
  qed
  with Cons.IH show ?case
    by (simp add: Let_def)
qed

lemma unique_loop_id:
  "distinct (map (fingerprint sha) ys) \<Longrightarrow> fingerprint sha ` set ys \<inter> seen = {}
     \<Longrightarrow> unique_loop sha ys seen = ys"
proof (induction ys arbitrary: seen)
  case Nil
  then show ?case by simp
next
  case (Cons y ys)
  from Cons.prems have fresh: "fingerprint sha y \<notin> seen"
    by auto
  from Cons.prems have disj: "fingerprint sha ` set ys \<inter> insert (fingerprint sha y) seen = {}"
    by auto
  from Cons.prems have "distinct (map (fingerprint sha) ys)"
    by simp
  then have "unique_loop sha ys (insert (fingerprint sha y) seen) = ys"
    using disj by (rule Cons.IH)
  with fresh show ?case
    by (simp add: Let_def)
qed

lemma unique_loop_first:
  "x \<in> set (unique_loop sha ys seen) \<Longrightarrow>
     \<exists>pre post. ys = pre @ x # post \<and> fingerprint sha x \<notin> fingerprint sha ` set pre"
proof (induction ys arbitrary: seen)
  case Nil
  then show ?case by simp
next
  case (Cons y ys)
  show ?case
  proof (cases "fingerprint sha y \<in> seen")
    case True
    with Cons.prems have "x \<in> set (unique_loop sha ys seen)"
      by (simp add: Let_def)
    then obtain pre post where p: "ys = pre @ x # post"
        "fingerprint sha x \<notin> fingerprint sha ` set pre"
      using Cons.IH by blast
    from Cons.prems have "fingerprint sha x \<notin> seen"
      by (rule unique_loop_unseen)
    with True have "fingerprint sha x \<noteq> fingerprint sha y"
      by auto
    with p have "y # ys = (y # pre) @ x # post
        \<and> fingerprint sha x \<notin> fingerprint sha ` set (y # pre)"
      by auto
    then show ?thesis by blast
  next
    case False
    with Cons.prems
    have "x = y \<or> x \<in> set (unique_loop sha ys (insert (fingerprint sha y) seen))"
      by (simp add: Let_def)
    then show ?thesis
    proof
      assume "x = y"
      then have "y # ys = [] @ x # ys \<and> fingerprint sha x \<notin> fingerprint sha ` set []"
        by simp
      then show ?thesis by blast
    next
      assume in_rest: "x \<in> set (unique_loop sha ys (insert (fingerprint sha y) seen))"
      then obtain pre post where p: "ys = pre @ x # post"
          "fingerprint sha x \<notin> fingerprint sha ` set pre"
        using Cons.IH by blast
      from in_rest have "fingerprint sha x \<notin> insert (fingerprint sha y) seen"
        by (rule unique_loop_unseen)
      then have "fingerprint sha x \<noteq> fingerprint sha y"
        by auto
      with p have "y # ys = (y # pre) @ x # post
          \<and> fingerprint sha x \<notin> fingerprint sha ` set (y # pre)"
        by auto
      then show ?thesis by blast
    qed
  qed
qed

lemma unique_loop_representative:
  "x \<in> set ys \<Longrightarrow> fingerprint sha x \<notin> seen \<Longrightarrow>
     \<exists>y. y \<in> set (unique_loop sha ys seen) \<and> fingerprint sha y = fingerprint sha x"
proof (induction ys arbitrary: seen)
  case Nil
  then show ?case by simp
next
  case (Cons z zs)
  show ?case
  proof (cases "fingerprint sha z = fingerprint sha x")
    case True
    with Cons.prems have "z \<in> set (unique_loop sha (z # zs) seen)"
      by (simp add: Let_def)
    with True show ?thesis by blast
  next
    case False
    with Cons.prems have xin: "x \<in> set zs"
      by auto
    show ?thesis
    proof (cases "fingerprint sha z \<in> seen")
      case True
      from Cons.IH [OF xin Cons.prems(2)] True show ?thesis
        by (auto simp: Let_def)
    next
      case unseen: False
      from False Cons.prems(2)
      have "fingerprint sha x \<notin> insert (fingerprint sha z) seen"
        by auto
      from Cons.IH [OF xin this] unseen show ?thesis
        by (auto simp: Let_def)
    qed
  qed
qed

lemma py_slice_to_id: "int (length xs) \<le> n \<Longrightarrow> py_slice_to n xs = xs"
  by (simp add: py_slice_to_def)

lemma length_py_slice_to: "0 \<le> n \<Longrightarrow> int (length (py_slice_to n xs)) \<le> n"
  by (simp add: py_slice_to_def)

lemma py_slice_to_take: "\<exists>m. py_slice_to n xs = take m xs"
  by (auto simp: py_slice_to_def)

lemmas merge_eval =
  merge_and_rank_results_def sorted_reverse_def rank_key_def get_relevance_score_def
  get_timestamp_def get_content_def hash_content_def sha256_examples_def py_slice_to_def
  less_eq_prod_def ex_a_def ex_b_def ex_x1_def ex_x2_def ex_x3_def

lemma merge_and_rank_in_results:
  "set (merge_and_rank_results sha xs n t) \<subseteq> {x \<in> set xs. t \<le> get_relevance_score x}"
proof -
  obtain m where "py_slice_to n (unique_loop sha (sorted_reverse rank_key
        (filter (\<lambda>r. t \<le> get_relevance_score r) xs)) {})
      = take m (unique_loop sha (sorted_reverse rank_key
        (filter (\<lambda>r. t \<le> get_relevance_score r) xs)) {})"
    using py_slice_to_take by blast
  then have "set (merge_and_rank_results sha xs n t)
      \<subseteq> set (unique_loop sha (sorted_reverse rank_key
        (filter (\<lambda>r. t \<le> get_relevance_score r) xs)) {})"
    by (simp add: merge_and_rank_results_def set_take_subset)
  also have "\<dots> \<subseteq> set (sorted_reverse rank_key (filter (\<lambda>r. t \<le> get_relevance_score r) xs))"
    by (rule set_unique_loop)
  also have "\<dots> = {x \<in> set xs. t \<le> get_relevance_score x}"
    by (simp add: set_sorted_reverse)
  finally show ?thesis .
qed

lemma merge_and_rank_descending:
  "descending rank_key (merge_and_rank_results sha xs n t)"
proof -
  have "sorted_wrt (\<lambda>x y. rank_key y \<le> rank_key x)
      (unique_loop sha (sorted_reverse rank_key (filter (\<lambda>r. t \<le> get_relevance_score r) xs)) {})"
    using descending_sorted_reverse [of rank_key] 
    by (intro sorted_wrt_unique_loop) (simp add: descending_def)
  then show ?thesis
    using py_slice_to_take [of n]
    by (metis descending_def merge_and_rank_results_def sorted_wrt_take)
qed

lemma merge_and_rank_distinct:
  "distinct (map (fingerprint sha) (merge_and_rank_results sha xs n t))"
proof -
  obtain m where m: "merge_and_rank_results sha xs n t
      = take m (unique_loop sha (sorted_reverse rank_key
        (filter (\<lambda>r. t \<le> get_relevance_score r) xs)) {})"
    unfolding merge_and_rank_results_def Let_def using py_slice_to_take by blast
  show ?thesis
    unfolding m take_map [symmetric]
    by (rule distinct_take) (rule distinct_unique_loop)
qed

text \<open>
  Claim C6, amended. For every candidate list, every threshold and every max_results that is
  not negative, running \<^verbatim>\<open>merge_and_rank_results\<close> on its own output with the same
  max_results and threshold returns that output unchanged: the same elements in the same order.
  (A negative max_results makes the final slice drop elements from the end, and each further
  run drops more.)
\<close>

theorem merge_and_rank_idempotent:
  assumes "0 \<le> max_results"
  shows "merge_and_rank_results sha
           (merge_and_rank_results sha results max_results relevance_threshold)
           max_results relevance_threshold
         = merge_and_rank_results sha results max_results relevance_threshold"
proof -
  define out where "out = merge_and_rank_results sha results max_results relevance_threshold"
  have "\<forall>x \<in> set out. relevance_threshold \<le> get_relevance_score x"
    using merge_and_rank_in_results [of sha results max_results relevance_threshold]
    by (auto simp: out_def)
  then have f: "filter (\<lambda>r. relevance_threshold \<le> get_relevance_score r) out = out"
    by simp
  have s: "sorted_reverse rank_key out = out"
    unfolding out_def by (rule sorted_reverse_id) (rule merge_and_rank_descending)
  have "distinct (map (fingerprint sha) out)"
    unfolding out_def by (rule merge_and_rank_distinct)
  then have u: "unique_loop sha out {} = out"
    by (rule unique_loop_id) simp
  from assms have "int (length out) \<le> max_results"
    unfolding out_def merge_and_rank_results_def Let_def by (rule length_py_slice_to)
  then have t: "py_slice_to max_results out = out"
    by (rule py_slice_to_id)
  have "merge_and_rank_results sha out max_results relevance_threshold = out"
    by (simp add: merge_and_rank_results_def f s u t)
  then show ?thesis
    by (simp add: out_def)
qed

theorem merge_and_rank_idempotent_witness:
  "(0::int) \<le> 1
   \<and> merge_and_rank_results sha256_examples [ex_b, ex_a] 1 0.7 = [ex_a]
   \<and> merge_and_rank_results sha256_examples [ex_a] 1 0.7 = [ex_a]"
proof -
  have m: "merge_and_rank_results sha256_examples [ex_b, ex_a] 1 0.7 = [ex_a]"
    by (simp add: merge_eval)
  from merge_and_rank_idempotent [where max_results = 1 and sha = sha256_examples
      and results = "[ex_b, ex_a]" and relevance_threshold = "0.7"]
  have "merge_and_rank_results sha256_examples
          (merge_and_rank_results sha256_examples [ex_b, ex_a] 1 0.7) 1 0.7
        = merge_and_rank_results sha256_examples [ex_b, ex_a] 1 0.7"
    by simp
  with m show ?thesis
    by simp
qed

theorem merge_and_rank_negative_limit_not_idempotent:
  "merge_and_rank_results sha256_examples [ex_b, ex_a] (- 1) 0.7 = [ex_a]
   \<and> merge_and_rank_results sha256_examples
        (merge_and_rank_results sha256_examples [ex_b, ex_a] (- 1) 0.7) (- 1) 0.7 = []
   \<and> merge_and_rank_results sha256_examples
        (merge_and_rank_results sha256_examples [ex_b, ex_a] (- 1) 0.7) (- 1) 0.7
       \<noteq> merge_and_rank_results sha256_examples [ex_b, ex_a] (- 1) 0.7"
proof -
  have m: "merge_and_rank_results sha256_examples [ex_b, ex_a] (- 1) 0.7 = [ex_a]"
    by (simp add: merge_eval)
  have n: "merge_and_rank_results sha256_examples [ex_a] (- 1) 0.7 = []"
    by (simp add: merge_eval)
  from m n show ?thesis
    by simp
qed

lemma filter_eq_singleton:
  "distinct xs \<Longrightarrow> a \<in> set xs \<Longrightarrow> filter (\<lambda>r. r = a) xs = [a]"
  by (induction xs) (auto simp: filter_empty_conv)

lemma unique_loop_drops_lower:
  assumes desc: "descending rank_key ys"
    and a: "a \<in> set ys"
    and fp: "fingerprint sha a = fingerprint sha b"
    and lt: "rank_key b < rank_key a"
  shows "b \<notin> set (unique_loop sha ys seen)"
proof
  assume "b \<in> set (unique_loop sha ys seen)"
  then obtain pre post where ys: "ys = pre @ b # post"
      and first: "fingerprint sha b \<notin> fingerprint sha ` set pre"
    using unique_loop_first by blast
  have "a \<notin> set pre"
  proof
    assume "a \<in> set pre"
    then have "fingerprint sha a \<in> fingerprint sha ` set pre"
      by (rule imageI)
    with first fp show False
      by simp
  qed
  moreover from lt have "a \<noteq> b"
    by auto
  ultimately have "a \<in> set post"
    using a ys by auto
  moreover from desc ys have "\<forall>y \<in> set post. rank_key y \<le> rank_key b"
    by (simp add: descending_def sorted_wrt_append)
  ultimately have "rank_key a \<le> rank_key b"
    by blast
  with lt show False
    by simp
qed

lemma unique_loop_append:
  "unique_loop sha (xs @ ys) seen
     = unique_loop sha xs seen @ unique_loop sha ys (seen \<union> fingerprint sha ` set xs)"
proof (induction xs arbitrary: seen)
  case Nil
  then show ?case by simp
next
  case (Cons x xs)
  have "insert (fingerprint sha x) seen \<union> fingerprint sha ` set xs
      = seen \<union> fingerprint sha ` set (x # xs)"
    by auto
  moreover have "fingerprint sha x \<in> seen \<Longrightarrow>
      seen \<union> fingerprint sha ` set xs = seen \<union> fingerprint sha ` set (x # xs)"
    by auto
  ultimately show ?case
    using Cons.IH [of seen] Cons.IH [of "insert (fingerprint sha x) seen"]
    by (simp add: Let_def del: set_simps image_insert)
qed

lemma length_filter_insort_key:
  "length (filter P (insort_key k x xs)) = length (filter P (x # xs))"
  by (induction xs) auto

lemma length_filter_sort_key:
  "length (filter P (sort_key k xs)) = length (filter P xs)"
  by (induction xs) (simp_all add: length_filter_insort_key)

lemma length_filter_sorted_reverse:
  "length (filter P (sorted_reverse k xs)) = length (filter P xs)"
proof -
  have "length (filter P (sorted_reverse k xs)) = length (filter P (sort_key k (rev xs)))"
    by (simp add: sorted_reverse_def rev_filter [symmetric])
  also have "\<dots> = length (filter P (rev xs))"
    by (rule length_filter_sort_key)
  also have "\<dots> = length (filter P xs)"
    by (simp add: rev_filter [symmetric])
  finally show ?thesis .
qed

text \<open>
  The candidate \<open>a\<close> is in the output when every other candidate with its fingerprint ranks
  below it and at most max_results candidates at or above the threshold rank at or above it.
\<close>

lemma merge_and_rank_keeps_top:
  assumes a: "a \<in> set results" and above: "relevance_threshold \<le> get_relevance_score a"
    and others: "\<forall>c \<in> set results. fingerprint sha c = fingerprint sha a
        \<longrightarrow> c = a \<or> rank_key c < rank_key a"
    and room: "int (length (filter (\<lambda>c. relevance_threshold \<le> get_relevance_score c
        \<and> rank_key a \<le> rank_key c) results)) \<le> max_results"
  shows "a \<in> set (merge_and_rank_results sha results max_results relevance_threshold)"
proof -
  define F where "F = filter (\<lambda>r. relevance_threshold \<le> get_relevance_score r) results"
  define S where "S = sorted_reverse rank_key F"
  define U where "U = unique_loop sha S {}"
  have out: "merge_and_rank_results sha results max_results relevance_threshold
      = py_slice_to max_results U"
    by (simp add: merge_and_rank_results_def U_def S_def F_def)
  from a above have "a \<in> set S"
    by (simp add: S_def F_def set_sorted_reverse)
  then obtain pre post where S: "S = pre @ a # post" and first: "a \<notin> set pre"
    by (meson split_list_first)
  have desc: "descending rank_key S"
    unfolding S_def by (rule descending_sorted_reverse)
  then have pre_above: "\<forall>x \<in> set pre. rank_key a \<le> rank_key x"
    unfolding S by (simp add: descending_def sorted_wrt_append)
  have pre_results: "set pre \<subseteq> set results"
  proof -
    have "set pre \<subseteq> set S"
      unfolding S by auto
    also have "\<dots> \<subseteq> set results"
      by (auto simp: S_def F_def set_sorted_reverse)
    finally show ?thesis .
  qed
  have fresh: "fingerprint sha a \<notin> {} \<union> fingerprint sha ` set pre"
  proof
    assume "fingerprint sha a \<in> {} \<union> fingerprint sha ` set pre"
    then obtain c where c: "c \<in> set pre" and fc: "fingerprint sha c = fingerprint sha a"
      by auto
    from c pre_results others fc have "c = a \<or> rank_key c < rank_key a"
      by blast
    moreover from c first have "c \<noteq> a"
      by auto
    moreover from c pre_above have "rank_key a \<le> rank_key c"
      by blast
    ultimately show False
      by auto
  qed
  define P where "P = unique_loop sha pre {}"
  obtain Q where U: "U = P @ a # Q"
    using fresh unfolding U_def S P_def
    by (simp add: unique_loop_append Let_def)
  have "length P \<le> length pre"
    unfolding P_def by (rule length_unique_loop)
  moreover have "length pre < length (filter (\<lambda>c. rank_key a \<le> rank_key c) S)"
  proof -
    from pre_above have "filter (\<lambda>c. rank_key a \<le> rank_key c) pre = pre"
      by simp
    then have "length (filter (\<lambda>c. rank_key a \<le> rank_key c) S)
        = length pre + 1 + length (filter (\<lambda>c. rank_key a \<le> rank_key c) post)"
      unfolding S by simp
    then show ?thesis
      by simp
  qed
  moreover have "length (filter (\<lambda>c. rank_key a \<le> rank_key c) S)
      = length (filter (\<lambda>c. relevance_threshold \<le> get_relevance_score c
          \<and> rank_key a \<le> rank_key c) results)"
    unfolding S_def F_def by (simp add: length_filter_sorted_reverse conj_commute)
  ultimately have lt: "int (length P) < max_results"
    using room by simp
  then have "0 \<le> max_results"
    by simp
  then have "py_slice_to max_results U = take (nat max_results) U"
    by (simp add: py_slice_to_def)
  moreover from lt have "length P < nat max_results"
    by simp
  then have "a \<in> set (take (nat max_results) U)"
    unfolding U by (simp add: take_Cons')
  ultimately show ?thesis
    unfolding out by simp
qed

text \<open>
  Claim C7, amended. Let a candidate list contain two candidates \<open>a\<close> and \<open>b\<close> with identical
  content, \<open>a\<close> with the higher relevance score, both at or above the threshold. Then the
  lower-ranked \<open>b\<close> is never in the output and \<open>a\<close> occurs in it at most once. If moreover
  every other candidate with the fingerprint of \<open>a\<close> ranks below \<open>a\<close>, and the number of
  candidates at or above the threshold that rank at or above \<open>a\<close> (counting \<open>a\<close>) is at most
  max_results, the output contains exactly one of the two, namely \<open>a\<close>.
\<close>

theorem merge_and_rank_keeps_best_duplicate:
  assumes a: "a \<in> set results" and b: "b \<in> set results"
    and content: "get_content a = get_content b"
    and score: "get_relevance_score b < get_relevance_score a"
    and above: "relevance_threshold \<le> get_relevance_score b"
  shows "b \<notin> set (merge_and_rank_results sha results max_results relevance_threshold)
    \<and> length (filter (\<lambda>r. r = a)
          (merge_and_rank_results sha results max_results relevance_threshold)) \<le> 1
    \<and> ((\<forall>c \<in> set results. fingerprint sha c = fingerprint sha a
            \<longrightarrow> c = a \<or> rank_key c < rank_key a)
        \<and> int (length (filter (\<lambda>c. relevance_threshold \<le> get_relevance_score c
              \<and> rank_key a \<le> rank_key c) results)) \<le> max_results
        \<longrightarrow> filter (\<lambda>r. r = a \<or> r = b)
              (merge_and_rank_results sha results max_results relevance_threshold) = [a])"
proof -
  define F where "F = filter (\<lambda>r. relevance_threshold \<le> get_relevance_score r) results"
  define S where "S = sorted_reverse rank_key F"
  define U where "U = unique_loop sha S {}"
  define out where "out = merge_and_rank_results sha results max_results relevance_threshold"
  have out: "out = py_slice_to max_results U"
    by (simp add: out_def merge_and_rank_results_def U_def S_def F_def)
  from a score above have aS: "a \<in> set S"
    by (simp add: S_def F_def set_sorted_reverse)
  have desc: "descending rank_key S"
    unfolding S_def by (rule descending_sorted_reverse)
  from content have fp: "fingerprint sha a = fingerprint sha b"
    by simp
  from score have lt: "rank_key b < rank_key a"
    by (simp add: rank_key_def less_prod_def)
  have bU: "b \<notin> set U"
    unfolding U_def using desc aS fp lt by (rule unique_loop_drops_lower)
  obtain m where m: "out = take m U"
    unfolding out using py_slice_to_take by blast
  have "set out \<subseteq> set U"
    unfolding m by (rule set_take_subset)
  with bU have b_out: "b \<notin> set out"
    by blast
  have "distinct (map (fingerprint sha) out)"
    unfolding out_def by (rule merge_and_rank_distinct)
  then have dist: "distinct out"
    by (simp add: distinct_map)
  have once: "length (filter (\<lambda>r. r = a) out) \<le> 1"
  proof (cases "a \<in> set out")
    case True
    with dist have "filter (\<lambda>r. r = a) out = [a]"
      by (rule filter_eq_singleton)
    then show ?thesis by simp
  next
    case False
    then have "filter (\<lambda>r. r = a) out = []"
      by (auto simp: filter_empty_conv)
    then show ?thesis by simp
  qed
  have only: "filter (\<lambda>r. r = a \<or> r = b) out = [a]"
    if others: "\<forall>c \<in> set results. fingerprint sha c = fingerprint sha a
        \<longrightarrow> c = a \<or> rank_key c < rank_key a"
      and room: "int (length (filter (\<lambda>c. relevance_threshold \<le> get_relevance_score c
        \<and> rank_key a \<le> rank_key c) results)) \<le> max_results"
  proof -
    from score above have "relevance_threshold \<le> get_relevance_score a"
      by simp
    with a have "a \<in> set out"
      unfolding out_def using others room by (rule merge_and_rank_keeps_top)
    with dist have "filter (\<lambda>r. r = a) out = [a]"
      by (rule filter_eq_singleton)
    moreover from b_out have "filter (\<lambda>r. r = a \<or> r = b) out = filter (\<lambda>r. r = a) out"
      by (intro filter_cong) auto
    ultimately show ?thesis
      by simp
  qed
  from b_out once only show ?thesis
    unfolding out_def by blast
qed

text \<open>
  Claim C7 as stated fails in two ways. With a third candidate of the same content that ranks
  above both, only that third candidate is kept; with max_results = 1 and a candidate of
  another content ranking above both, the slice drops the kept duplicate. In both runs the
  output contains neither of the two duplicates.
\<close>

theorem merge_and_rank_duplicates_can_both_be_dropped:
  "ex_x2 \<in> set [ex_x2, ex_x3, ex_x1] \<and> ex_x3 \<in> set [ex_x2, ex_x3, ex_x1]
   \<and> ex_x2 \<in> set [ex_x2, ex_x3, ex_top] \<and> ex_x3 \<in> set [ex_x2, ex_x3, ex_top]
   \<and> get_content ex_x2 = get_content ex_x3
   \<and> res_id ex_x2 \<noteq> res_id ex_x3
   \<and> get_relevance_score ex_x3 < get_relevance_score ex_x2
   \<and> 0.7 \<le> get_relevance_score ex_x3
   \<and> merge_and_rank_results sha256_examples [ex_x2, ex_x3, ex_x1] 10 0.7 = [ex_x1]
   \<and> ex_x2 \<notin> set (merge_and_rank_results sha256_examples [ex_x2, ex_x3, ex_x1] 10 0.7)
   \<and> ex_x3 \<notin> set (merge_and_rank_results sha256_examples [ex_x2, ex_x3, ex_x1] 10 0.7)
   \<and> merge_and_rank_results sha256_examples [ex_x2, ex_x3, ex_top] 1 0.7 = [ex_top]
   \<and> ex_x2 \<notin> set (merge_and_rank_results sha256_examples [ex_x2, ex_x3, ex_top] 1 0.7)
   \<and> ex_x3 \<notin> set (merge_and_rank_results sha256_examples [ex_x2, ex_x3, ex_top] 1 0.7)"
  by (simp add: merge_eval ex_top_def)

text \<open>
  The amended claim C7 on four candidates with max_results = 2: the duplicate pair is behind
  one higher-ranked candidate of another content, and the better duplicate is kept.
\<close>

theorem merge_and_rank_keeps_best_duplicate_witness:
  "ex_x2 \<in> set [ex_x3, ex_top, ex_x2, ex_b] \<and> ex_x3 \<in> set [ex_x3, ex_top, ex_x2, ex_b]
   \<and> get_content ex_x2 = get_content ex_x3
   \<and> get_relevance_score ex_x3 < get_relevance_score ex_x2
   \<and> 0.7 \<le> get_relevance_score ex_x3
   \<and> int (length (filter (\<lambda>c. 0.7 \<le> get_relevance_score c \<and> rank_key ex_x2 \<le> rank_key c)
        [ex_x3, ex_top, ex_x2, ex_b])) \<le> 2
   \<and> merge_and_rank_results sha256_examples [ex_x3, ex_top, ex_x2, ex_b] 2 0.7
       = [ex_top, ex_x2]
   \<and> ex_x3 \<notin> set (merge_and_rank_results sha256_examples [ex_x3, ex_top, ex_x2, ex_b] 2 0.7)
   \<and> filter (\<lambda>r. r = ex_x2 \<or> r = ex_x3)
        (merge_and_rank_results sha256_examples [ex_x3, ex_top, ex_x2, ex_b] 2 0.7) = [ex_x2]"
proof -
  have h: "ex_x2 \<in> set [ex_x3, ex_top, ex_x2, ex_b]" "ex_x3 \<in> set [ex_x3, ex_top, ex_x2, ex_b]"
    "get_content ex_x2 = get_content ex_x3"
    "get_relevance_score ex_x3 < get_relevance_score ex_x2"
    "0.7 \<le> get_relevance_score ex_x3"
    by (simp_all add: merge_eval ex_top_def)
  have others: "\<forall>c \<in> set [ex_x3, ex_top, ex_x2, ex_b].
      fingerprint sha256_examples c = fingerprint sha256_examples ex_x2
        \<longrightarrow> c = ex_x2 \<or> rank_key c < rank_key ex_x2"
    by (simp add: merge_eval ex_top_def less_prod_def)
  have room: "int (length (filter (\<lambda>c. 0.7 \<le> get_relevance_score c
      \<and> rank_key ex_x2 \<le> rank_key c) [ex_x3, ex_top, ex_x2, ex_b])) \<le> 2"
    by (simp add: merge_eval ex_top_def)
  have m: "merge_and_rank_results sha256_examples [ex_x3, ex_top, ex_x2, ex_b] 2 0.7
      = [ex_top, ex_x2]"
    by (simp add: merge_eval ex_top_def)
  from merge_and_rank_keeps_best_duplicate [OF h, of sha256_examples 2] others room h m
  show ?thesis
    by simp
qed

section \<open>Properties of writes and their TTL\<close>

lemma map_of_put_entry:
  "map_of (put_entry key v expiry es) k = (if k = key then Some (v, expiry) else map_of es k)"
proof -
  have "k \<noteq> key \<Longrightarrow> map_of (filter (\<lambda>e. fst e \<noteq> key) es) k = map_of es k"
    by (induction es) auto
  then show ?thesis
    by (simp add: put_entry_def)
qed

lemma expire_limit_week: "604800 \<le> expire_limit r"
  by (simp add: expire_limit_def)

lemma redis_set_positive:
  "reachable r \<Longrightarrow> 0 < ttl \<Longrightarrow> ttl \<le> expire_limit r \<Longrightarrow>
     redis_set r key v (Some ttl) = (Inr True, r\<lparr>entries := put_entry key v (Some ttl) (entries r)\<rparr>)"
  by (simp add: redis_set_def client_setex_def)

lemma redis_set_zero:
  "reachable r \<Longrightarrow>
     redis_set r key v (Some 0) = (Inr True, r\<lparr>entries := put_entry key v None (entries r)\<rparr>)"
  by (simp add: redis_set_def client_set_def)

lemma redis_set_negative:
  "reachable r \<Longrightarrow> ttl < 0 \<Longrightarrow> redis_set r key v (Some ttl) = (Inl ResponseError, r)"
  by (simp add: redis_set_def client_setex_def)

lemma redis_set_beyond:
  assumes "reachable r" and "expire_limit r < ttl"
  shows "redis_set r key v (Some ttl) = (Inl ResponseError, r)"
proof -
  from assms(2) expire_limit_week [of r] have "ttl \<noteq> 0"
    by simp
  with assms show ?thesis
    by (simp add: redis_set_def client_setex_def)
qed

lemma stm_key_not_session: "generate_id ''stm'' sy \<noteq> ''session:'' @ rest"
  by (simp add: generate_id_def)

lemma short_write_ttl_positive:
  assumes "reachable r" and "body_content body = Some c"
    and "ttl = (case body_ttl_seconds body of None \<Rightarrow> 604800 | Some t \<Rightarrow> t)" and "0 < ttl"
    and "ttl \<le> expire_limit r"
  shows "short_write_ttl sy body r = Some (ttl, ttl, Some ttl)"
proof -
  have lim: "expire_limit (r\<lparr>entries := es\<rparr>) = expire_limit r" for es
    by (simp add: expire_limit_def)
  show ?thesis
    using assms stm_key_not_session [of sy]
    by (simp add: short_write_ttl_def ShorttermMemoryHandler_add_memory_def Let_def
        redis_set_positive map_of_put_entry lim)
qed

lemma short_write_ttl_zero:
  assumes "reachable r" and "body_content body = Some c" and "body_ttl_seconds body = Some 0"
  shows "short_write_ttl sy body r = Some (0, 0, None)"
  using assms stm_key_not_session [of sy]
  by (simp add: short_write_ttl_def ShorttermMemoryHandler_add_memory_def Let_def
      redis_set_zero map_of_put_entry)

lemma short_add_negative:
  assumes "reachable r" and "body_content body = Some c" and "body_ttl_seconds body = Some t"
    and "t < 0"
  shows "ShorttermMemoryHandler_add_memory sy body r = (Inl ResponseError, r)"
  using assms
  by (simp add: ShorttermMemoryHandler_add_memory_def Let_def redis_set_negative)

lemma short_add_beyond:
  assumes "reachable r" and "body_content body = Some c" and "body_ttl_seconds body = Some t"
    and "expire_limit r < t"
  shows "ShorttermMemoryHandler_add_memory sy body r = (Inl ResponseError, r)"
  using assms
  by (simp add: ShorttermMemoryHandler_add_memory_def Let_def redis_set_beyond)

lemma working_write_ttl_positive:
  assumes "reachable r"
    and "ttl = (case wmc_ttl_seconds md of None \<Rightarrow> 3600 | Some t \<Rightarrow> if t = 0 then 3600 else t)"
    and "0 < ttl" and "ttl \<le> expire_limit r"
  shows "working_write_ttl jd sy self md r = Some (Some ttl, Some ttl, Some ttl)"
  using assms
  by (simp add: working_write_ttl_def WorkingMemoryHandler_add_memory_def Let_def
      redis_set_positive map_of_put_entry)

lemma working_add_negative:
  assumes "reachable r" and "wmc_ttl_seconds md = Some t" and "t < 0"
  shows "WorkingMemoryHandler_add_memory jd sy self md r = (Inl ResponseError, r)"
  using assms
  by (simp add: WorkingMemoryHandler_add_memory_def Let_def redis_set_negative)

lemma working_add_beyond:
  assumes "reachable r" and "wmc_ttl_seconds md = Some t" and "expire_limit r < t"
  shows "WorkingMemoryHandler_add_memory jd sy self md r = (Inl ResponseError, r)"
proof -
  from assms(3) expire_limit_week [of r] have "t \<noteq> 0"
    by simp
  with assms show ?thesis
    by (simp add: WorkingMemoryHandler_add_memory_def Let_def redis_set_beyond)
qed

text \<open>
  Claim C5, amended. On a reachable store, a working-memory write with no \<^verbatim>\<open>ttl_seconds\<close>
  gets the TTL 3600 and a short-term write (with content) with no \<^verbatim>\<open>ttl_seconds\<close> gets
  604800. A write with an explicit positive \<^verbatim>\<open>ttl_seconds\<close> \<open>t\<close> that does not exceed the
  largest expiry the store accepts gets the supplied value. In each of these cases the TTL is
  the one returned in the response, the one in the stored record and the expiry the store
  holds for the record's key. A write with an explicit \<^verbatim>\<open>ttl_seconds\<close> \<open>u\<close> beyond the largest
  expiry the store accepts raises the store's error and leaves the store unchanged.
\<close>

theorem ttl_defaulting:
  assumes "reachable rw" and "reachable rs" and "body_content body = Some c" and "0 < t"
    and "t \<le> expire_limit rw" and "t \<le> expire_limit rs"
    and "expire_limit rw < u" and "expire_limit rs < u"
  shows "working_write_ttl jd sy self (md\<lparr>wmc_ttl_seconds := None\<rparr>) rw
           = Some (Some 3600, Some 3600, Some 3600)
    \<and> short_write_ttl sy (body\<lparr>body_ttl_seconds := None\<rparr>) rs
           = Some (604800, 604800, Some 604800)
    \<and> working_write_ttl jd sy self (md\<lparr>wmc_ttl_seconds := Some t\<rparr>) rw
           = Some (Some t, Some t, Some t)
    \<and> short_write_ttl sy (body\<lparr>body_ttl_seconds := Some t\<rparr>) rs = Some (t, t, Some t)
    \<and> WorkingMemoryHandler_add_memory jd sy self (md\<lparr>wmc_ttl_seconds := Some u\<rparr>) rw
           = (Inl ResponseError, rw)
    \<and> ShorttermMemoryHandler_add_memory sy (body\<lparr>body_ttl_seconds := Some u\<rparr>) rs
           = (Inl ResponseError, rs)"
proof -
  have w0: "working_write_ttl jd sy self (md\<lparr>wmc_ttl_seconds := None\<rparr>) rw
      = Some (Some 3600, Some 3600, Some 3600)"
    using assms(1) expire_limit_week [of rw] by (intro working_write_ttl_positive) simp_all
  have s0: "short_write_ttl sy (body\<lparr>body_ttl_seconds := None\<rparr>) rs
      = Some (604800, 604800, Some 604800)"
    using assms(2,3) expire_limit_week [of rs]
    by (intro short_write_ttl_positive [where c = c]) simp_all
  have wt: "working_write_ttl jd sy self (md\<lparr>wmc_ttl_seconds := Some t\<rparr>) rw
      = Some (Some t, Some t, Some t)"
    using assms(1,4,5) by (intro working_write_ttl_positive) simp_all
  have st: "short_write_ttl sy (body\<lparr>body_ttl_seconds := Some t\<rparr>) rs = Some (t, t, Some t)"
    using assms(2,3,4,6) by (intro short_write_ttl_positive [where c = c]) simp_all
  have wu: "WorkingMemoryHandler_add_memory jd sy self (md\<lparr>wmc_ttl_seconds := Some u\<rparr>) rw
      = (Inl ResponseError, rw)"
    using assms(1,7) by (intro working_add_beyond [where t = u]) simp_all
  have su: "ShorttermMemoryHandler_add_memory sy (body\<lparr>body_ttl_seconds := Some u\<rparr>) rs
      = (Inl ResponseError, rs)"
    using assms(2,3,8) by (intro short_add_beyond [where c = c and t = u]) simp_all
  from w0 s0 wt st wu su show ?thesis
    by simp
qed

theorem ttl_defaulting_witness:
  "reachable (empty_redis :: WorkingMemoryBase redis)
   \<and> reachable (empty_redis :: ShorttermMemory redis)
   \<and> body_content ex_stm_body = Some ''secret''
   \<and> (0::int) < 120
   \<and> 120 \<le> expire_limit (empty_redis :: WorkingMemoryBase redis)
   \<and> 120 \<le> expire_limit (empty_redis :: ShorttermMemory redis)
   \<and> expire_limit (empty_redis :: WorkingMemoryBase redis) < 9223372036854775807
   \<and> expire_limit (empty_redis :: ShorttermMemory redis) < 9223372036854775807
   \<and> working_write_ttl ex_json_dumps ex_sys \<lparr>wh_tenant_id = ''t1''\<rparr> ex_wm_create empty_redis
       = Some (Some 3600, Some 3600, Some 3600)
   \<and> short_write_ttl ex_sys ex_stm_body empty_redis = Some (604800, 604800, Some 604800)
   \<and> working_write_ttl ex_json_dumps ex_sys \<lparr>wh_tenant_id = ''t1''\<rparr>
        (ex_wm_create\<lparr>wmc_ttl_seconds := Some 120\<rparr>) empty_redis
       = Some (Some 120, Some 120, Some 120)
   \<and> short_write_ttl ex_sys (ex_stm_body\<lparr>body_ttl_seconds := Some 120\<rparr>) empty_redis
       = Some (120, 120, Some 120)
   \<and> WorkingMemoryHandler_add_memory ex_json_dumps ex_sys \<lparr>wh_tenant_id = ''t1''\<rparr>
        (ex_wm_create\<lparr>wmc_ttl_seconds := Some 9223372036854775807\<rparr>) empty_redis
       = (Inl ResponseError, empty_redis)
   \<and> ShorttermMemoryHandler_add_memory ex_sys
        (ex_stm_body\<lparr>body_ttl_seconds := Some 9223372036854775807\<rparr>) empty_redis
       = (Inl ResponseError, empty_redis)"
proof -
  have h: "reachable (empty_redis :: WorkingMemoryBase redis)"
    "reachable (empty_redis :: ShorttermMemory redis)"
    "body_content ex_stm_body = Some ''secret''" "(0::int) < 120"
    "120 \<le> expire_limit (empty_redis :: WorkingMemoryBase redis)"
    "120 \<le> expire_limit (empty_redis :: ShorttermMemory redis)"
    "expire_limit (empty_redis :: WorkingMemoryBase redis) < 9223372036854775807"
    "expire_limit (empty_redis :: ShorttermMemory redis) < 9223372036854775807"
    by (simp_all add: empty_redis_def ex_stm_body_def expire_limit_def)
  have e: "ex_wm_create\<lparr>wmc_ttl_seconds := None\<rparr> = ex_wm_create"
    "ex_stm_body\<lparr>body_ttl_seconds := None\<rparr> = ex_stm_body"
    by (simp_all add: ex_wm_create_def ex_stm_body_def)
  from ttl_defaulting [OF h, of ex_json_dumps ex_sys "\<lparr>wh_tenant_id = ''t1''\<rparr>" ex_wm_create] h e
  show ?thesis
    by simp
qed

lemmas handler_eval =
  ShorttermMemoryHandler_add_memory_def ShorttermMemoryHandler_get_memory_def
  WorkingMemoryHandler_add_memory_def WorkingMemoryHandler_get_memories_def
  redis_set_def redis_get_def redis_keys_def client_set_def client_setex_def client_get_def
  client_keys_def put_entry_def generate_id_def working_key_def truthy_str_def py_slice_to_def
  str_decode_def ex_sys_def empty_redis_def ex_stm_body_def ex_wm_create_def ex_json_dumps_def
  expire_limit_def Let_def

text \<open>
  Claim C5 as stated fails for a positive \<^verbatim>\<open>ttl_seconds\<close> that the store does not accept as
  an expiry. With \<^verbatim>\<open>ttl_seconds\<close> = 9223372036854775807 the short-term and the
  working-memory write raise the store's error on a reachable store; nothing is persisted
  and no TTL is returned.
\<close>

theorem huge_ttl_write_is_refused:
  "(0 :: int) < 9223372036854775807
   \<and> ShorttermMemoryHandler_add_memory ex_sys
        (ex_stm_body\<lparr>body_ttl_seconds := Some 9223372036854775807\<rparr>) empty_redis
       = (Inl ResponseError,
          \<lparr>reachable = True, max_expire = 9223372036854775, entries = []\<rparr>)
   \<and> short_write_ttl ex_sys
        (ex_stm_body\<lparr>body_ttl_seconds := Some 9223372036854775807\<rparr>) empty_redis = None
   \<and> WorkingMemoryHandler_add_memory ex_json_dumps ex_sys \<lparr>wh_tenant_id = ''t1''\<rparr>
        (ex_wm_create\<lparr>wmc_ttl_seconds := Some 9223372036854775807\<rparr>) empty_redis
       = (Inl ResponseError,
          \<lparr>reachable = True, max_expire = 9223372036854775, entries = []\<rparr>)
   \<and> working_write_ttl ex_json_dumps ex_sys \<lparr>wh_tenant_id = ''t1''\<rparr>
        (ex_wm_create\<lparr>wmc_ttl_seconds := Some 9223372036854775807\<rparr>) empty_redis = None"
  by (simp add: handler_eval short_write_ttl_def working_write_ttl_def)

text \<open>
  Claim C4, amended. The handlers do not validate \<^verbatim>\<open>ttl_seconds\<close> before the store call. A
  \<^verbatim>\<open>ttl_seconds\<close> of 0 is accepted: the short-term write stores the record with
  \<^verbatim>\<open>ttl_seconds\<close> 0 and without expiry and returns it in the response; the working-memory
  write replaces 0 by the default 3600. A negative \<^verbatim>\<open>ttl_seconds\<close> reaches the store, whose
  \<^verbatim>\<open>SETEX\<close> refuses it: the write raises the store's error and leaves the store unchanged.
\<close>

theorem nonpositive_ttl_handling:
  assumes "reachable rw" and "reachable rs" and "body_content body = Some c" and "t < 0"
  shows "short_write_ttl sy (body\<lparr>body_ttl_seconds := Some 0\<rparr>) rs = Some (0, 0, None)
    \<and> working_write_ttl jd sy self (md\<lparr>wmc_ttl_seconds := Some 0\<rparr>) rw
           = Some (Some 3600, Some 3600, Some 3600)
    \<and> ShorttermMemoryHandler_add_memory sy (body\<lparr>body_ttl_seconds := Some t\<rparr>) rs
           = (Inl ResponseError, rs)
    \<and> WorkingMemoryHandler_add_memory jd sy self (md\<lparr>wmc_ttl_seconds := Some t\<rparr>) rw
           = (Inl ResponseError, rw)"
proof -
  have s0: "short_write_ttl sy (body\<lparr>body_ttl_seconds := Some 0\<rparr>) rs = Some (0, 0, None)"
    using assms(2,3) by (intro short_write_ttl_zero [where c = c]) simp_all
  have w0: "working_write_ttl jd sy self (md\<lparr>wmc_ttl_seconds := Some 0\<rparr>) rw
      = Some (Some 3600, Some 3600, Some 3600)"
    using assms(1) expire_limit_week [of rw] by (intro working_write_ttl_positive) simp_all
  have sn: "ShorttermMemoryHandler_add_memory sy (body\<lparr>body_ttl_seconds := Some t\<rparr>) rs
      = (Inl ResponseError, rs)"
    using assms(2,3,4) by (intro short_add_negative [where c = c and t = t]) simp_all
  have wn: "WorkingMemoryHandler_add_memory jd sy self (md\<lparr>wmc_ttl_seconds := Some t\<rparr>) rw
      = (Inl ResponseError, rw)"
    using assms(1,4) by (intro working_add_negative [where t = t]) simp_all
  from s0 w0 sn wn show ?thesis
    by simp
qed

theorem nonpositive_ttl_handling_witness:
  "reachable (empty_redis :: WorkingMemoryBase redis)
   \<and> reachable (empty_redis :: ShorttermMemory redis)
   \<and> body_content ex_stm_body = Some ''secret''
   \<and> (- 5 :: int) < 0
   \<and> short_write_ttl ex_sys (ex_stm_body\<lparr>body_ttl_seconds := Some 0\<rparr>) empty_redis
       = Some (0, 0, None)
   \<and> working_write_ttl ex_json_dumps ex_sys \<lparr>wh_tenant_id = ''t1''\<rparr>
        (ex_wm_create\<lparr>wmc_ttl_seconds := Some 0\<rparr>) empty_redis
       = Some (Some 3600, Some 3600, Some 3600)
   \<and> ShorttermMemoryHandler_add_memory ex_sys (ex_stm_body\<lparr>body_ttl_seconds := Some (- 5)\<rparr>)
        empty_redis = (Inl ResponseError, empty_redis)
   \<and> WorkingMemoryHandler_add_memory ex_json_dumps ex_sys \<lparr>wh_tenant_id = ''t1''\<rparr>
        (ex_wm_create\<lparr>wmc_ttl_seconds := Some (- 5)\<rparr>) empty_redis
       = (Inl ResponseError, empty_redis)"
proof -
  have h: "reachable (empty_redis :: WorkingMemoryBase redis)"
    "reachable (empty_redis :: ShorttermMemory redis)"
    "body_content ex_stm_body = Some ''secret''" "(- 5 :: int) < 0"
    by (simp_all add: empty_redis_def ex_stm_body_def)
  from nonpositive_ttl_handling [OF h, of ex_sys ex_json_dumps "\<lparr>wh_tenant_id = ''t1''\<rparr>" ex_wm_create] h
  show ?thesis
    by simp
qed

theorem zero_ttl_short_term_write_is_persisted:
  "ShorttermMemoryHandler_add_memory ex_sys (ex_stm_body\<lparr>body_ttl_seconds := Some 0\<rparr>) empty_redis
     = (Inr (Response 201
          \<lparr>created_memory_id = ''stm_u1'',
           created_message = ''Short-term memory stored successfully'',
           created_ttl_seconds = 0\<rparr>),
        \<lparr>reachable = True, max_expire = 9223372036854775,
         entries = [(''stm_u1'',
           (\<lparr>stm_id = ''stm_u1'', stm_content = ''secret'',
             stm_timestamp = ''2024-01-01T00:00:00'', stm_metadata = [],
             stm_ttl_seconds = 0, stm_session_id = []\<rparr>, None))]\<rparr>)"
  by (simp add: handler_eval)

section \<open>Reading working memory back\<close>

lemma redis_keys_empty: "redis_keys r pattern = []"
proof -
  have "decode_all ks = Inr ds \<Longrightarrow> ds = []" for ks ds
    by (cases ks) (auto simp: str_decode_def)
  then show ?thesis
    by (auto simp: redis_keys_def split: sum.splits)
qed

lemma WorkingMemoryHandler_get_memories_empty:
  "WorkingMemoryHandler_get_memories self session_id limit r = Inr []"
  by (simp add: WorkingMemoryHandler_get_memories_def redis_keys_empty py_slice_to_def)

text \<open>
  Claim C2 at a concrete write: tenant \<^verbatim>\<open>t1\<close> writes to session \<^verbatim>\<open>s1\<close>. The record is stored
  under \<^verbatim>\<open>tenant:t1:session:s1:memory:wm_u1\<close>, and the store's \<^verbatim>\<open>KEYS\<close> finds that key for
  the pattern of the read; yet \<^verbatim>\<open>get_memories\<close> for the same tenant and session returns the
  empty list.
\<close>

theorem working_memory_write_is_not_read_back:
  "WorkingMemoryHandler_add_memory ex_json_dumps ex_sys \<lparr>wh_tenant_id = ''t1''\<rparr> ex_wm_create
       empty_redis
     = (Inr \<lparr>wr_memory_id = ''wm_u1'', wr_tenant_id = ''t1'', wr_session_id = ''s1'',
             wr_data = [], wr_content = ''{}'', wr_timestamp = ''2024-01-01T00:00:00'',
             wr_ttl_seconds = Some 3600, wr_metadata = Some [], wr_context = Some ''s1''\<rparr>,
        \<lparr>reachable = True, max_expire = 9223372036854775,
         entries = [(''tenant:t1:session:s1:memory:wm_u1'',
           (\<lparr>wm_memory_id = ''wm_u1'', wm_content = ''{}'', wm_metadata = Some [],
             wm_ttl_seconds = Some 3600, wm_timestamp = ''2024-01-01T00:00:00'',
             wm_context = Some ''s1''\<rparr>, Some 3600))]\<rparr>)
   \<and> client_keys
         (snd (WorkingMemoryHandler_add_memory ex_json_dumps ex_sys \<lparr>wh_tenant_id = ''t1''\<rparr>
                 ex_wm_create empty_redis))
         ''tenant:t1:session:s1:memory:*''
       = Inr [''tenant:t1:session:s1:memory:wm_u1'']
   \<and> WorkingMemoryHandler_get_memories \<lparr>wh_tenant_id = ''t1''\<rparr> (Some ''s1'') 10
         (snd (WorkingMemoryHandler_add_memory ex_json_dumps ex_sys \<lparr>wh_tenant_id = ''t1''\<rparr>
                 ex_wm_create empty_redis))
       = Inr []"
  by (simp add: handler_eval)

section \<open>Tenant scope of reads\<close>

lemma query_items_subset:
  "set (query_items t kc fe) \<subseteq> {i \<in> set (table_items t). kc i \<and> fe i}"
  by (auto simp: query_items_def)

lemma LongTermMemoryHandler_get_memory_source:
  assumes "LongTermMemoryHandler_get_memory self entity_id t = Some resp"
  shows "\<exists>item. item \<in> set (table_items t)
           \<and> item_tenant_id item = lh_tenant_id self \<and> item_entity_id item = entity_id
           \<and> lr_memory_id resp = item_id item \<and> lr_entity_id resp = item_entity_id item
           \<and> lr_summary resp = item_summary item \<and> lr_metadata resp = item_metadata item
           \<and> lr_timestamp resp = item_timestamp item
           \<and> lr_tenant_id resp = lh_tenant_id self"
proof -
  define results where "results = query_items t (\<lambda>i. item_entity_id i = entity_id)
      (\<lambda>i. item_tenant_id i = lh_tenant_id self)"
  from assms obtain r rest where res: "results = r # rest"
    and resp: "resp = \<lparr>lr_memory_id = item_id r, lr_entity_id = item_entity_id r,
        lr_summary = item_summary r, lr_metadata = item_metadata r,
        lr_timestamp = item_timestamp r, lr_tenant_id = lh_tenant_id self,
        lr_related_entities = [], lr_id = None\<rparr>"
    by (auto simp: LongTermMemoryHandler_get_memory_def results_def split: list.splits)
  from res have "r \<in> set results"
    by simp
  with query_items_subset [of t "\<lambda>i. item_entity_id i = entity_id"
      "\<lambda>i. item_tenant_id i = lh_tenant_id self"]
  have "r \<in> set (table_items t) \<and> item_entity_id r = entity_id
      \<and> item_tenant_id r = lh_tenant_id self"
    unfolding results_def by blast
  with resp show ?thesis
    by auto
qed

text \<open>A point lookup returns the record the store holds under the given id.\<close>

lemma short_term_point_lookup:
  assumes "truthy_str (param_memory_id params)"
    and "(case param_limit params of None \<Rightarrow> Some 10 | Some l \<Rightarrow> py_int l) = Some limit"
    and "redis_get r (the (param_memory_id params)) = Some m"
  shows "ShorttermMemoryHandler_get_memory py_int params r
     = Inr (Response 200
         \<lparr>found_memories = [m], found_count = 1,
          found_query = \<lparr>query_memory_id = param_memory_id params,
                          query_session_id = param_session_id params,
                          query_limit = limit\<rparr>\<rparr>)"
  using assms by (simp add: ShorttermMemoryHandler_get_memory_def Let_def)

text \<open>What a successful write returns and leaves in the store under the id of the record.\<close>

lemma redis_set_result:
  "redis_set r key v ttl = (Inl ConnectionError, r)
   \<or> redis_set r key v ttl = (Inl ResponseError, r)
   \<or> reachable r \<and> (\<exists>expiry. redis_set r key v ttl
          = (Inr True, r\<lparr>entries := put_entry key v expiry (entries r)\<rparr>))"
  by (auto simp: redis_set_def client_set_def client_setex_def split: option.splits)

lemma redis_get_put_entry:
  "reachable r \<Longrightarrow>
     redis_get (r\<lparr>entries := put_entry key v expiry (entries r)\<rparr>) k
       = (if k = key then Some v else redis_get r k)"
  by (simp add: redis_get_def client_get_def map_of_put_entry)

lemma short_term_write_stores_record:
  assumes "fst (ShorttermMemoryHandler_add_memory sy body r) = Inr (Response 201 created)"
  shows "redis_get (snd (ShorttermMemoryHandler_add_memory sy body r)) (generate_id ''stm'' sy)
     = Some \<lparr>stm_id = generate_id ''stm'' sy,
             stm_content = the (body_content body),
             stm_timestamp = utcnow sy,
             stm_metadata = (case body_metadata body of None \<Rightarrow> [] | Some m \<Rightarrow> m),
             stm_ttl_seconds = (case body_ttl_seconds body of None \<Rightarrow> 604800 | Some t \<Rightarrow> t),
             stm_session_id = (case body_session_id body of None \<Rightarrow> [] | Some sid \<Rightarrow> sid)\<rparr>"
proof -
  define memory where "memory = \<lparr>stm_id = generate_id ''stm'' sy,
      stm_content = the (body_content body),
      stm_timestamp = utcnow sy,
      stm_metadata = (case body_metadata body of None \<Rightarrow> [] | Some m \<Rightarrow> m),
      stm_ttl_seconds = (case body_ttl_seconds body of None \<Rightarrow> 604800 | Some t \<Rightarrow> t),
      stm_session_id = (case body_session_id body of None \<Rightarrow> [] | Some sid \<Rightarrow> sid)\<rparr>"
  define mid where "mid = generate_id ''stm'' sy"
  define skey where "skey = ''session:'' @ stm_session_id memory @ '':'' @ mid"
  from assms obtain c where c: "body_content body = Some c"
    by (cases "body_content body") (simp_all add: ShorttermMemoryHandler_add_memory_def)
  have ne: "mid \<noteq> skey"
    unfolding mid_def skey_def by (rule stm_key_not_session)
  from redis_set_result [of r mid memory "Some (stm_ttl_seconds memory)"]
  consider (refused) e where "redis_set r mid memory (Some (stm_ttl_seconds memory)) = (Inl e, r)"
    | (stored) ex1 where "reachable r"
        "redis_set r mid memory (Some (stm_ttl_seconds memory))
           = (Inr True, r\<lparr>entries := put_entry mid memory ex1 (entries r)\<rparr>)"
    by blast
  then show ?thesis
  proof cases
    case refused
    with c have "fst (ShorttermMemoryHandler_add_memory sy body r) = Inl e"
      by (simp add: ShorttermMemoryHandler_add_memory_def Let_def memory_def mid_def)
    with assms show ?thesis
      by simp
  next
    case stored
    define r1 where "r1 = r\<lparr>entries := put_entry mid memory ex1 (entries r)\<rparr>"
    have r1: "reachable r1"
      using stored(1) by (simp add: r1_def)
    have g1: "redis_get r1 mid = Some memory"
      using stored(1) by (simp add: r1_def redis_get_put_entry)
    show ?thesis
    proof (cases "stm_session_id memory = []")
      case True
      with c stored(2) have "snd (ShorttermMemoryHandler_add_memory sy body r) = r1"
        by (simp add: ShorttermMemoryHandler_add_memory_def Let_def memory_def mid_def r1_def)
      with g1 show ?thesis
        by (simp add: mid_def memory_def)
    next
      case False
      from redis_set_result [of r1 skey memory "Some (stm_ttl_seconds memory)"]
      consider (refused2) e where
          "redis_set r1 skey memory (Some (stm_ttl_seconds memory)) = (Inl e, r1)"
        | (stored2) ex2 where
          "redis_set r1 skey memory (Some (stm_ttl_seconds memory))
             = (Inr True, r1\<lparr>entries := put_entry skey memory ex2 (entries r1)\<rparr>)"
        by blast
      then show ?thesis
      proof cases
        case refused2
        with c stored(2) False
        have "fst (ShorttermMemoryHandler_add_memory sy body r) = Inl e"
          by (simp add: ShorttermMemoryHandler_add_memory_def Let_def memory_def mid_def
              skey_def r1_def)
        with assms show ?thesis
          by simp
      next
        case stored2
        with c stored(2) False
        have "snd (ShorttermMemoryHandler_add_memory sy body r)
            = r1\<lparr>entries := put_entry skey memory ex2 (entries r1)\<rparr>"
          by (simp add: ShorttermMemoryHandler_add_memory_def Let_def memory_def mid_def
              skey_def r1_def)
        with g1 r1 ne show ?thesis
          by (simp add: redis_get_put_entry mid_def memory_def)
      qed
    qed
  qed
qed

text \<open>
  A read by session: \<^verbatim>\<open>get_multiple\<close> returns \<^verbatim>\<open>None\<close> for every key, so the read returns
  no record.
\<close>

lemma deserialize_all_None:
  "deserialize_all vs = Inr ds \<Longrightarrow> ds = replicate (length vs) None"
proof (induction vs arbitrary: ds)
  case Nil
  then show ?case by simp
next
  case (Cons v vs)
  show ?case
  proof (cases v)
    case None
    with Cons.prems obtain ds' where "deserialize_all vs = Inr ds'" and "ds = None # ds'"
      by (cases "deserialize_all vs") auto
    with Cons.IH [of ds'] show ?thesis
      by simp
  next
    case (Some a)
    with Cons.prems show ?thesis
      by (simp add: deserialize_memory_str_def)
  qed
qed

lemma redis_get_multiple_None:
  "redis_get_multiple r keys = replicate (length keys) None"
proof (cases "client_mget r keys")
  case (Inl e)
  then show ?thesis
    by (simp add: redis_get_multiple_def)
next
  case (Inr vs)
  then have len: "length vs = length keys"
    by (auto simp: client_mget_def split: if_splits)
  show ?thesis
  proof (cases "deserialize_all vs")
    case (Inl e)
    with Inr show ?thesis
      by (simp add: redis_get_multiple_def)
  next
    case inr: (Inr ds)
    with deserialize_all_None [of vs ds] len Inr show ?thesis
      by (simp add: redis_get_multiple_def)
  qed
qed

lemma map_filter_replicate_None: "List.map_filter id (replicate n None) = []"
  by (induction n) (simp_all add: List.map_filter_simps)

lemma short_term_session_read_empty:
  assumes "\<not> truthy_str (param_memory_id params)" and "truthy_str (param_session_id params)"
    and "(case param_limit params of None \<Rightarrow> Some 10 | Some l \<Rightarrow> py_int l) = Some limit"
  shows "ShorttermMemoryHandler_get_memory py_int params r
     = Inr (Response 200
         \<lparr>found_memories = [], found_count = 0,
          found_query = \<lparr>query_memory_id = param_memory_id params,
                          query_session_id = param_session_id params,
                          query_limit = limit\<rparr>\<rparr>)"
  using assms
  by (simp add: ShorttermMemoryHandler_get_memory_def Let_def redis_get_multiple_None
      map_filter_replicate_None)

text \<open>
  Claim C1, amended. A long-term read by \<^verbatim>\<open>entity_id\<close> returns only a record of the table
  whose \<^verbatim>\<open>tenant_id\<close> equals the handler's tenant (and whose \<^verbatim>\<open>entity_id\<close> is the one asked
  for), and the response carries that tenant. The short-term tier has no tenant scope. After
  a successful short-term write, a read by the \<^verbatim>\<open>memory_id\<close> of the written record returns
  exactly that record, whatever \<^verbatim>\<open>tenant_id\<close> the payload of the write and the parameters
  of the read carry; and on every store a read by \<^verbatim>\<open>memory_id\<close> returns the record held
  under that id, whatever \<^verbatim>\<open>tenant_id\<close> the read carries.
\<close>

theorem tenant_scope_of_reads:
  "(LongTermMemoryHandler_get_memory self entity_id t = Some resp \<longrightarrow>
      lr_tenant_id resp = lh_tenant_id self
      \<and> (\<exists>item. item \<in> set (table_items t)
            \<and> item_tenant_id item = lh_tenant_id self \<and> item_entity_id item = entity_id
            \<and> lr_memory_id resp = item_id item \<and> lr_entity_id resp = item_entity_id item
            \<and> lr_summary resp = item_summary item \<and> lr_metadata resp = item_metadata item
            \<and> lr_timestamp resp = item_timestamp item))
   \<and> (fst (ShorttermMemoryHandler_add_memory sy (body\<lparr>body_tenant_id := writer\<rparr>) r)
         = Inr (Response 201 created) \<longrightarrow>
       ShorttermMemoryHandler_get_memory py_int
          \<lparr>param_memory_id = Some (generate_id ''stm'' sy), param_session_id = session,
           param_limit = None, param_tenant_id = reader\<rparr>
          (snd (ShorttermMemoryHandler_add_memory sy (body\<lparr>body_tenant_id := writer\<rparr>) r))
         = Inr (Response 200
             \<lparr>found_memories =
                [\<lparr>stm_id = generate_id ''stm'' sy,
                  stm_content = the (body_content body),
                  stm_timestamp = utcnow sy,
                  stm_metadata = (case body_metadata body of None \<Rightarrow> [] | Some m \<Rightarrow> m),
                  stm_ttl_seconds =
                    (case body_ttl_seconds body of None \<Rightarrow> 604800 | Some t \<Rightarrow> t),
                  stm_session_id =
                    (case body_session_id body of None \<Rightarrow> [] | Some sid \<Rightarrow> sid)\<rparr>],
              found_count = 1,
              found_query = \<lparr>query_memory_id = Some (generate_id ''stm'' sy),
                              query_session_id = session, query_limit = 10\<rparr>\<rparr>))
   \<and> (truthy_str (param_memory_id params)
       \<and> (case param_limit params of None \<Rightarrow> Some 10 | Some l \<Rightarrow> py_int l) = Some limit
       \<and> redis_get store (the (param_memory_id params)) = Some m \<longrightarrow>
       ShorttermMemoryHandler_get_memory py_int (params\<lparr>param_tenant_id := reader\<rparr>) store
         = Inr (Response 200
             \<lparr>found_memories = [m], found_count = 1,
              found_query = \<lparr>query_memory_id = param_memory_id params,
                              query_session_id = param_session_id params,
                              query_limit = limit\<rparr>\<rparr>))"
proof -
  have a: "LongTermMemoryHandler_get_memory self entity_id t = Some resp \<longrightarrow>
      lr_tenant_id resp = lh_tenant_id self
      \<and> (\<exists>item. item \<in> set (table_items t)
            \<and> item_tenant_id item = lh_tenant_id self \<and> item_entity_id item = entity_id
            \<and> lr_memory_id resp = item_id item \<and> lr_entity_id resp = item_entity_id item
            \<and> lr_summary resp = item_summary item \<and> lr_metadata resp = item_metadata item
            \<and> lr_timestamp resp = item_timestamp item)"
    using LongTermMemoryHandler_get_memory_source [of self entity_id t resp] by blast
  have b: "ShorttermMemoryHandler_get_memory py_int
          \<lparr>param_memory_id = Some (generate_id ''stm'' sy), param_session_id = session,
           param_limit = None, param_tenant_id = reader\<rparr>
          (snd (ShorttermMemoryHandler_add_memory sy (body\<lparr>body_tenant_id := writer\<rparr>) r))
         = Inr (Response 200
             \<lparr>found_memories =
                [\<lparr>stm_id = generate_id ''stm'' sy,
                  stm_content = the (body_content body),
                  stm_timestamp = utcnow sy,
                  stm_metadata = (case body_metadata body of None \<Rightarrow> [] | Some m \<Rightarrow> m),
                  stm_ttl_seconds =
                    (case body_ttl_seconds body of None \<Rightarrow> 604800 | Some t \<Rightarrow> t),
                  stm_session_id =
                    (case body_session_id body of None \<Rightarrow> [] | Some sid \<Rightarrow> sid)\<rparr>],
              found_count = 1,
              found_query = \<lparr>query_memory_id = Some (generate_id ''stm'' sy),
                              query_session_id = session, query_limit = 10\<rparr>\<rparr>)"
    if w: "fst (ShorttermMemoryHandler_add_memory sy (body\<lparr>body_tenant_id := writer\<rparr>) r)
         = Inr (Response 201 created)"
  proof -
    have t: "truthy_str (param_memory_id
        \<lparr>param_memory_id = Some (generate_id ''stm'' sy), param_session_id = session,
         param_limit = None, param_tenant_id = reader\<rparr>)"
      by (simp add: truthy_str_def generate_id_def)
    from short_term_write_stores_record [OF w]
    have g: "redis_get
        (snd (ShorttermMemoryHandler_add_memory sy (body\<lparr>body_tenant_id := writer\<rparr>) r))
        (the (param_memory_id
          \<lparr>param_memory_id = Some (generate_id ''stm'' sy), param_session_id = session,
           param_limit = None, param_tenant_id = reader\<rparr>))
      = Some \<lparr>stm_id = generate_id ''stm'' sy,
             stm_content = the (body_content body),
             stm_timestamp = utcnow sy,
             stm_metadata = (case body_metadata body of None \<Rightarrow> [] | Some m \<Rightarrow> m),
             stm_ttl_seconds = (case body_ttl_seconds body of None \<Rightarrow> 604800 | Some t \<Rightarrow> t),
             stm_session_id = (case body_session_id body of None \<Rightarrow> [] | Some sid \<Rightarrow> sid)\<rparr>"
      by simp
    from short_term_point_lookup [where py_int = py_int and limit = 10, OF t _ g]
    show ?thesis
      by simp
  qed
  have c: "ShorttermMemoryHandler_get_memory py_int (params\<lparr>param_tenant_id := reader\<rparr>) store
         = Inr (Response 200
             \<lparr>found_memories = [m], found_count = 1,
              found_query = \<lparr>query_memory_id = param_memory_id params,
                              query_session_id = param_session_id params,
                              query_limit = limit\<rparr>\<rparr>)"
    if "truthy_str (param_memory_id params)"
      and "(case param_limit params of None \<Rightarrow> Some 10 | Some l \<Rightarrow> py_int l) = Some limit"
      and "redis_get store (the (param_memory_id params)) = Some m"
    using short_term_point_lookup [of "params\<lparr>param_tenant_id := reader\<rparr>" py_int limit store m]
      that
    by simp
  from a b c show ?thesis
    by blast
qed

lemmas longterm_eval =
  LongTermMemoryHandler_get_memory_def LongTermMemoryHandler_update_memory_def
  longterm_lambda_handler_def header_tenant_def query_items_def put_item_def primary_key_def
  ex_table_def ex_ltm_create_def ex_ltm_event_def missing_fields_def long_write_tenant_def
  lambda_write_tenant_def stored_tenants_def item_of_response_def truthy_str_def
  generate_id_def ex_sys_def Let_def

theorem tenant_scope_of_reads_witness:
  "LongTermMemoryHandler_get_memory \<lparr>lh_tenant_id = ''tenantB''\<rparr> ''e1'' ex_table
     = Some \<lparr>lr_memory_id = ''ltm_b'', lr_entity_id = ''e1'', lr_summary = ''summary of B'',
             lr_metadata = [], lr_timestamp = ''2024-01-02T00:00:00'',
             lr_tenant_id = ''tenantB'', lr_related_entities = [], lr_id = None\<rparr>
   \<and> fst (ShorttermMemoryHandler_add_memory ex_sys ex_stm_body empty_redis)
       = Inr (Response 201
           \<lparr>created_memory_id = ''stm_u1'',
            created_message = ''Short-term memory stored successfully'',
            created_ttl_seconds = 604800\<rparr>)
   \<and> body_tenant_id ex_stm_body = Some ''tenantA''
   \<and> ShorttermMemoryHandler_get_memory py_int_examples
        \<lparr>param_memory_id = Some ''stm_u1'', param_session_id = None, param_limit = None,
         param_tenant_id = Some ''tenantB''\<rparr>
        (snd (ShorttermMemoryHandler_add_memory ex_sys ex_stm_body empty_redis))
       = Inr (Response 200
           \<lparr>found_memories =
              [\<lparr>stm_id = ''stm_u1'', stm_content = ''secret'',
                stm_timestamp = ''2024-01-01T00:00:00'', stm_metadata = [],
                stm_ttl_seconds = 604800, stm_session_id = []\<rparr>],
            found_count = 1,
            found_query = \<lparr>query_memory_id = Some ''stm_u1'', query_session_id = None,
                            query_limit = 10\<rparr>\<rparr>)
   \<and> truthy_str (param_memory_id ex_stm_params)
   \<and> py_int_examples ''500'' = Some 500
   \<and> redis_get
        \<lparr>reachable = True, max_expire = 9223372036854775,
         entries = [(''stm_u1'',
           (\<lparr>stm_id = ''stm_u1'', stm_content = ''of tenant A'',
             stm_timestamp = ''2024-01-01T00:00:00'', stm_metadata = [],
             stm_ttl_seconds = 60, stm_session_id = ''s1''\<rparr>, Some 60))]\<rparr> ''stm_u1''
       = Some \<lparr>stm_id = ''stm_u1'', stm_content = ''of tenant A'',
               stm_timestamp = ''2024-01-01T00:00:00'', stm_metadata = [],
               stm_ttl_seconds = 60, stm_session_id = ''s1''\<rparr>
   \<and> ShorttermMemoryHandler_get_memory py_int_examples
        (ex_stm_params\<lparr>param_limit := Some ''500'', param_tenant_id := Some ''tenantB''\<rparr>)
        \<lparr>reachable = True, max_expire = 9223372036854775,
         entries = [(''stm_u1'',
           (\<lparr>stm_id = ''stm_u1'', stm_content = ''of tenant A'',
             stm_timestamp = ''2024-01-01T00:00:00'', stm_metadata = [],
             stm_ttl_seconds = 60, stm_session_id = ''s1''\<rparr>, Some 60))]\<rparr>
       = Inr (Response 200
           \<lparr>found_memories =
              [\<lparr>stm_id = ''stm_u1'', stm_content = ''of tenant A'',
                stm_timestamp = ''2024-01-01T00:00:00'', stm_metadata = [],
                stm_ttl_seconds = 60, stm_session_id = ''s1''\<rparr>],
            found_count = 1,
            found_query = \<lparr>query_memory_id = Some ''stm_u1'', query_session_id = None,
                            query_limit = 500\<rparr>\<rparr>)"
proof -
  define store :: "ShorttermMemory redis" where "store =
      \<lparr>reachable = True, max_expire = 9223372036854775,
       entries = [(''stm_u1'',
         (\<lparr>stm_id = ''stm_u1'', stm_content = ''of tenant A'',
           stm_timestamp = ''2024-01-01T00:00:00'', stm_metadata = [],
           stm_ttl_seconds = 60, stm_session_id = ''s1''\<rparr>, Some 60))]\<rparr>"
  define rec where "rec =
      \<lparr>stm_id = ''stm_u1'', stm_content = ''of tenant A'',
       stm_timestamp = ''2024-01-01T00:00:00'', stm_metadata = [],
       stm_ttl_seconds = 60, stm_session_id = ''s1''\<rparr>"
  define resp where "resp =
      \<lparr>lr_memory_id = ''ltm_b'', lr_entity_id = ''e1'', lr_summary = ''summary of B'',
       lr_metadata = [], lr_timestamp = ''2024-01-02T00:00:00'',
       lr_tenant_id = ''tenantB'', lr_related_entities = [], lr_id = None\<rparr>"
  define created where "created =
      \<lparr>created_memory_id = ''stm_u1'',
       created_message = ''Short-term memory stored successfully'',
       created_ttl_seconds = 604800\<rparr>"
  have g: "LongTermMemoryHandler_get_memory \<lparr>lh_tenant_id = ''tenantB''\<rparr> ''e1'' ex_table
      = Some resp"
    by (simp add: longterm_eval resp_def)
  have w: "fst (ShorttermMemoryHandler_add_memory ex_sys ex_stm_body empty_redis)
      = Inr (Response 201 created)"
    by (simp add: handler_eval created_def)
  have e: "ex_stm_body\<lparr>body_tenant_id := Some ''tenantA''\<rparr> = ex_stm_body"
    "body_tenant_id ex_stm_body = Some ''tenantA''"
    "generate_id ''stm'' ex_sys = ''stm_u1''" "utcnow ex_sys = ''2024-01-01T00:00:00''"
    "body_content ex_stm_body = Some ''secret''" "body_metadata ex_stm_body = None"
    "body_ttl_seconds ex_stm_body = None" "body_session_id ex_stm_body = None"
    by (simp_all add: ex_stm_body_def generate_id_def ex_sys_def)
  have p: "truthy_str (param_memory_id ex_stm_params)"
    "py_int_examples ''500'' = Some 500"
    "(case param_limit (ex_stm_params\<lparr>param_limit := Some ''500''\<rparr>) of
        None \<Rightarrow> Some 10 | Some l \<Rightarrow> py_int_examples l) = Some 500"
    "param_memory_id (ex_stm_params\<lparr>param_limit := Some ''500''\<rparr>) = Some ''stm_u1''"
    "param_session_id (ex_stm_params\<lparr>param_limit := Some ''500''\<rparr>) = None"
    by (simp_all add: ex_stm_params_def truthy_str_def py_int_examples_def)
  have q: "redis_get store ''stm_u1'' = Some rec"
    by (simp add: store_def rec_def redis_get_def client_get_def)
  from tenant_scope_of_reads [where self = "\<lparr>lh_tenant_id = ''tenantB''\<rparr>"
      and entity_id = "''e1''" and t = ex_table and resp = resp
      and sy = ex_sys and body = ex_stm_body and writer = "Some ''tenantA''"
      and r = empty_redis and created = created and py_int = py_int_examples
      and session = None and reader = "Some ''tenantB''"
      and params = "ex_stm_params\<lparr>param_limit := Some ''500''\<rparr>" and limit = 500
      and store = store and m = rec] g w e p q
  have "ShorttermMemoryHandler_get_memory py_int_examples
        \<lparr>param_memory_id = Some ''stm_u1'', param_session_id = None, param_limit = None,
         param_tenant_id = Some ''tenantB''\<rparr>
        (snd (ShorttermMemoryHandler_add_memory ex_sys ex_stm_body empty_redis))
       = Inr (Response 200
           \<lparr>found_memories =
              [\<lparr>stm_id = ''stm_u1'', stm_content = ''secret'',
                stm_timestamp = ''2024-01-01T00:00:00'', stm_metadata = [],
                stm_ttl_seconds = 604800, stm_session_id = []\<rparr>],
            found_count = 1,
            found_query = \<lparr>query_memory_id = Some ''stm_u1'', query_session_id = None,
                            query_limit = 10\<rparr>\<rparr>)"
    and "ShorttermMemoryHandler_get_memory py_int_examples
        (ex_stm_params\<lparr>param_limit := Some ''500'', param_tenant_id := Some ''tenantB''\<rparr>) store
       = Inr (Response 200
           \<lparr>found_memories = [rec], found_count = 1,
            found_query = \<lparr>query_memory_id = Some ''stm_u1'', query_session_id = None,
                            query_limit = 500\<rparr>\<rparr>)"
    by simp_all
  with g w e p q show ?thesis
    unfolding store_def rec_def resp_def created_def by simp
qed

text \<open>
  Claim C1 as stated fails: tenant A writes a short-term memory, and a read that carries
  tenant B and A's memory id returns A's record.
\<close>

theorem short_term_read_crosses_tenants:
  "body_tenant_id ex_stm_body = Some ''tenantA''
   \<and> param_tenant_id ex_stm_params = Some ''tenantB''
   \<and> ShorttermMemoryHandler_get_memory py_int_examples ex_stm_params
        (snd (ShorttermMemoryHandler_add_memory ex_sys ex_stm_body empty_redis))
       = Inr (Response 200
           \<lparr>found_memories =
              [\<lparr>stm_id = ''stm_u1'', stm_content = ''secret'',
                stm_timestamp = ''2024-01-01T00:00:00'', stm_metadata = [],
                stm_ttl_seconds = 604800, stm_session_id = []\<rparr>],
            found_count = 1,
            found_query = \<lparr>query_memory_id = Some ''stm_u1'', query_session_id = None,
                            query_limit = 10\<rparr>\<rparr>)"
  by (simp add: handler_eval ex_stm_params_def)

section \<open>The tenant of a write\<close>




lemma length_generate_embedding: "length (generate_embedding digest text) = 768"
  by (simp add: generate_embedding_def)



lemma longterm_lambda_null_headers:
  "le_headers event = NullHeaders \<Longrightarrow>
     longterm_lambda_handler sy event t = (ErrorResponse 500 none_has_no_get, t)"
  by (simp add: longterm_lambda_handler_def header_tenant_def)


lemmas semantic_eval =
  semantic_lambda_handler_def handle_add_memory_def handle_query_memory_def
  OpenSearchAdapter_def add_document_def query_limit_def query_min_score_def
  semantic_write_tenant_def truthy_str_def generate_id_def py_max_def py_min_def
  healthy_index_def unreachable_index_def ex_sem_body_def ex_sem_params_def ex_sem_post_def
  ex_sem_get_def ex_sys_def py_int_examples_def py_float_examples_def Let_def
  length_generate_embedding



section \<open>Failures of the search index\<close>

text \<open>
  \<^verbatim>\<open>search_vector\<close> and \<^verbatim>\<open>search_text\<close> answer a failed search call with the empty list.
  The semantic Lambda does not reach them: a vector or text query ends in the attribute
  error of \<^verbatim>\<open>handle_query_memory\<close>, and an index that cannot be reached fails the
  construction of the adapter; both are answered with 500.
\<close>

lemma search_vector_failure:
  "cl_search a (VectorQuery n min_score v) = Inl e \<Longrightarrow> search_vector a v n min_score = []"
  by (simp add: search_vector_def)

lemma search_text_failure:
  "cl_search a (TextQuery n q) = Inl e \<Longrightarrow> search_text a q n = []"
  by (simp add: search_text_def)

lemma semantic_query_is_answered_500:
  "semantic_lambda_handler py_int_examples py_float_examples md5_examples ex_sys
     (Some ''https://search'') ex_sem_get healthy_index
     = (ErrorResponse 500 ''Internal server error'', healthy_index)
   \<and> semantic_lambda_handler py_int_examples py_float_examples md5_examples ex_sys
     (Some ''https://search'') ex_sem_get unreachable_index
     = (ErrorResponse 500 ''Internal server error'', unreachable_index)"
  by (simp add: semantic_eval)

section \<open>Clamping of the query parameters\<close>

lemma query_limit_range:
  "query_limit py_int params = Inr n \<Longrightarrow> 1 \<le> n \<and> n \<le> 100"
  by (auto simp: query_limit_def split: option.splits)

lemma query_limit_default:
  "sp_limit params = None \<Longrightarrow> query_limit py_int params = Inr 10"
  by (simp add: query_limit_def)

lemma clamp_in_unit_interval:
  "x \<noteq> NaN \<Longrightarrow> in_unit_interval (py_min (py_max x (Finite 0)) (Finite 1))"
  by (cases x) (auto simp: in_unit_interval_def py_min_def py_max_def)

lemma query_min_score_range:
  "query_min_score py_float params = Inr x \<Longrightarrow>
     (\<forall>m. sp_min_score params = Some m \<longrightarrow> py_float m \<noteq> Some NaN) \<Longrightarrow> in_unit_interval x"
  by (auto simp: query_min_score_def clamp_in_unit_interval split: option.splits)

lemma query_min_score_default:
  "sp_min_score params = None \<Longrightarrow> query_min_score py_float params = Inr (Finite 0.7)"
  by (simp add: query_min_score_def py_min_def py_max_def)

text \<open>
  Claim C10 at concrete queries. The limits \<^verbatim>\<open>500\<close> and \<^verbatim>\<open>-3\<close> are clamped to 100 and 1 and
  the score \<^verbatim>\<open>1.5\<close> to 1, but the score \<^verbatim>\<open>nan\<close> is not clamped: the effective
  \<^verbatim>\<open>min_score\<close> is NaN, which is not in the interval from 0 to 1.
\<close>

theorem nan_min_score_is_not_clamped:
  "query_min_score py_float_examples (ex_sem_params\<lparr>sp_min_score := Some ''nan''\<rparr>) = Inr NaN
   \<and> \<not> in_unit_interval NaN
   \<and> query_limit py_int_examples (ex_sem_params\<lparr>sp_limit := Some ''500''\<rparr>) = Inr 100
   \<and> query_limit py_int_examples (ex_sem_params\<lparr>sp_limit := Some ''-3''\<rparr>) = Inr 1
   \<and> query_min_score py_float_examples (ex_sem_params\<lparr>sp_min_score := Some ''1.5''\<rparr>)
       = Inr (Finite 1)"
  by (simp add: semantic_eval in_unit_interval_def)

end
